theory Spec2Isabelle
  imports Main "HOL-Library.AList"
begin

section \<open>Session data model\<close>

text \<open>
  The session manager hook (hooks/use-session-manager.ts) and the remote adapter
  (lib/firestore-service.ts) work on the types \<open>ChatSession\<close>, \<open>SessionMetadata\<close> and
  \<open>StoredMessage\<close> of lib/session-storage. JavaScript numbers that hold epoch
  milliseconds are integers here; a property that may be \<open>undefined\<close>, \<open>null\<close> or a
  value is a three-valued \<open>optional\<close>.
\<close>

datatype 'a optional = Undefined | Null | Defined 'a

text \<open>The operator \<open>a ?? b\<close>: \<open>b\<close> when \<open>a\<close> is \<open>undefined\<close> or \<open>null\<close>, else \<open>a\<close>.\<close>

definition nullish :: "'a optional \<Rightarrow> 'a optional \<Rightarrow> 'a optional" where
  "nullish a b = (case a of Defined v \<Rightarrow> Defined v | _ \<Rightarrow> b)"

text \<open>
  Modelled from the spec: the declaration of \<open>StoredMessage\<close> lives in
  lib/session-storage; the data model names its fields as role, content and timestamp.
\<close>

record StoredMessage =
  role :: string
  content :: string
  timestamp :: int

text \<open>An element \<open>{ svg, xml }\<close> of \<open>diagramHistory\<close>.\<close>

record HistoryEntry =
  svg :: string
  xml_h :: string

text \<open>
  Modelled from the spec: the declaration of \<open>ChatSession\<close> lives in
  lib/session-storage; the fields are those the data model lists, which are also
  exactly the ones the hook and the remote adapter read and write.
\<close>

record ChatSession =
  id_s :: string
  title :: string
  messages :: "StoredMessage list"
  xmlSnapshots :: "(int \<times> string) list"
  diagramXml :: string
  thumbnailDataUrl :: "string optional"
  diagramHistory :: "HistoryEntry list optional"
  createdAt :: int
  updatedAt :: int

text \<open>The projection used for list rendering (built at lines 558-567 and 401-410).\<close>

record SessionMetadata =
  id_md :: string
  title_md :: string
  createdAt_md :: int
  updatedAt_md :: int
  messageCount :: nat
  hasDiagram :: bool
  thumbnailDataUrl_md :: "string optional"

text \<open>\<open>SessionData\<close>, the argument of \<open>saveCurrentSession\<close> and result of \<open>switchSession\<close>.\<close>

record SessionData =
  messages_sd :: "StoredMessage list"
  xmlSnapshots_sd :: "(int \<times> string) list"
  diagramXml_sd :: string
  thumbnailDataUrl_sd :: "string optional"
  diagramHistory_sd :: "HistoryEntry list optional"

text \<open>A rejected promise: the thrown value with its optional \<open>code\<close> property.\<close>

datatype js_error = JsError (code: "string option")

definition permissionDenied :: "js_error \<Rightarrow> bool" where
  "permissionDenied e = (code e = Some ''permission-denied'')"

text \<open>
  \<open>s.trim()\<close>. A \<open>char\<close> is a code unit below 256; the white space and line
  terminators that \<open>String.prototype.trim\<close> strips in that range are tab, line feed,
  vertical tab, form feed, carriage return, space and the no-break space U+00A0 (the
  others, such as U+FEFF and U+2028, lie outside the range of the type).
\<close>

definition isSpace :: "char \<Rightarrow> bool" where
  "isSpace c = (c \<in> set [CHR 0x09, CHR 0x0A, CHR 0x0B, CHR 0x0C, CHR 0x0D, CHR '' '', CHR 0xA0])"

definition trim :: "string \<Rightarrow> string" where
  "trim s = rev (dropWhile isSpace (rev (dropWhile isSpace s)))"

text \<open>\<open>!!xml && xml.trim().length > 0\<close>\<close>

definition hasDiagramOf :: "string \<Rightarrow> bool" where
  "hasDiagramOf x = (x \<noteq> [] \<and> length (trim x) > 0)"

section \<open>The remote document store\<close>

text \<open>
  A document of \<open>drawio/{userId}/sessions/{sessionId}\<close> as \<open>saveSessionToFirestore\<close>
  writes it: the session without \<open>id\<close>, with \<open>userId\<close>, and with the snapshots as
  \<open>{ ts, xml }\<close> objects.
\<close>

record SnapshotRec =
  ts :: int
  xml :: string

record FsDoc =
  title_fs :: string
  messages_fs :: "StoredMessage list"
  diagramXml_fs :: string
  createdAt_fs :: int
  userId :: string
  thumbnailDataUrl_fs :: "string optional"
  diagramHistory_fs :: "HistoryEntry list optional"
  xmlSnapshots_fs :: "SnapshotRec list"
  updatedAt_fs :: int

text \<open>
  The store maps a document path (user id, session id) to its document; an association
  list, so that a collection can be listed. The calls issued to a backend are recorded in
  order in \<open>calls\<close>, a trace that the program itself does not read. \<open>indexedDB\<close> is the
  local database, of a type left open.
\<close>

type_synonym firestore = "((string \<times> string) \<times> FsDoc) list"

datatype backend_call =
    FirestoreSave string ChatSession
  | FirestoreGet string string
  | FirestoreList string
  | FirestoreDelete string string
  | LocalSave ChatSession
  | LocalEnforceLimit
  | LocalGet string
  | LocalList
  | LocalDelete string
  | LocalMigrate

record 'db world =
  firestore :: firestore
  indexedDB :: 'db
  calls :: "backend_call list"

text \<open>
  What the surroundings supply to one operation of the hook: the identity (\<open>user\<close> of
  \<open>useAuth()\<close> as its uid, and whether \<open>auth.currentUser\<close> is set), the outcome of each
  primitive of the remote store (\<open>None\<close>: it succeeds; \<open>Some e\<close>: it rejects with
  \<open>e\<close>), and the two readings of \<open>Date.now()\<close>: the one of the hook (line 376) and the
  one of the remote adapter (line 498).
\<close>

record env =
  user :: "string option"
  authCurrentUser :: bool
  setDocFault :: "js_error option"
  getDocFault :: "js_error option"
  getDocsFault :: "js_error option"
  deleteDocFault :: "js_error option"
  dateNow :: int
  dateNowFirestore :: int

subsection \<open>Primitives of the document store\<close>

definition setDoc :: "js_error option \<Rightarrow> string \<times> string \<Rightarrow> FsDoc \<Rightarrow> firestore \<Rightarrow> js_error + firestore" where
  "setDoc fault ref d fs = (case fault of Some e \<Rightarrow> Inl e | None \<Rightarrow> Inr (AList.update ref d fs))"

definition getDoc :: "js_error option \<Rightarrow> string \<times> string \<Rightarrow> firestore \<Rightarrow> js_error + FsDoc option" where
  "getDoc fault ref fs = (case fault of Some e \<Rightarrow> Inl e | None \<Rightarrow> Inr (map_of fs ref))"

definition deleteDoc :: "js_error option \<Rightarrow> string \<times> string \<Rightarrow> firestore \<Rightarrow> js_error + firestore" where
  "deleteDoc fault ref fs = (case fault of Some e \<Rightarrow> Inl e | None \<Rightarrow> Inr (AList.delete ref fs))"

text \<open>
  \<open>getDocs(query(collection(.., userId, "sessions"), orderBy("updatedAt", "desc")))\<close>:
  the documents of one user, latest \<open>updatedAt\<close> first, each with its document id.
\<close>

definition getDocs :: "js_error option \<Rightarrow> string \<Rightarrow> firestore \<Rightarrow> js_error + (string \<times> FsDoc) list" where
  "getDocs fault uid fs =
     (case fault of
        Some e \<Rightarrow> Inl e
      | None \<Rightarrow> Inr (sort_key (\<lambda>(sid, d). - updatedAt_fs d)
                      (map (\<lambda>(ref, d). (snd ref, d)) (filter (\<lambda>(ref, d). fst ref = uid) fs))))"

subsection \<open>lib/firestore-service.ts\<close>

text \<open>
  \<open>sanitizeForFirestore\<close> (lines 452-469) replaces \<open>undefined\<close> by \<open>null\<close>, maps itself
  over arrays and over the own properties of objects, and returns every other value as
  it is. On the typed document this is: every optional property loses \<open>Undefined\<close>,
  every list is mapped, every record is rebuilt property by property.
\<close>

definition sanitizeOptional :: "('a \<Rightarrow> 'a) \<Rightarrow> 'a optional \<Rightarrow> 'a optional" where
  "sanitizeOptional f v = (case v of Undefined \<Rightarrow> Null | Null \<Rightarrow> Null | Defined x \<Rightarrow> Defined (f x))"

definition sanitizeMessage :: "StoredMessage \<Rightarrow> StoredMessage" where
  "sanitizeMessage m = \<lparr>role = role m, content = content m, timestamp = timestamp m\<rparr>"

definition sanitizeHistoryEntry :: "HistoryEntry \<Rightarrow> HistoryEntry" where
  "sanitizeHistoryEntry h = \<lparr>svg = svg h, xml_h = xml_h h\<rparr>"

definition sanitizeSnapshot :: "SnapshotRec \<Rightarrow> SnapshotRec" where
  "sanitizeSnapshot r = \<lparr>ts = ts r, xml = xml r\<rparr>"

definition sanitizeForFirestore :: "FsDoc \<Rightarrow> FsDoc" where
  "sanitizeForFirestore d =
     \<lparr>title_fs = title_fs d,
      messages_fs = map sanitizeMessage (messages_fs d),
      diagramXml_fs = diagramXml_fs d,
      createdAt_fs = createdAt_fs d,
      userId = userId d,
      thumbnailDataUrl_fs = sanitizeOptional (\<lambda>x. x) (thumbnailDataUrl_fs d),
      diagramHistory_fs = sanitizeOptional (map sanitizeHistoryEntry) (diagramHistory_fs d),
      xmlSnapshots_fs = map sanitizeSnapshot (xmlSnapshots_fs d),
      updatedAt_fs = updatedAt_fs d\<rparr>"

text \<open>
  \<open>saveSessionToFirestore\<close> (lines 471-509). The \<open>catch\<close> logs and rethrows, so the
  rejection of \<open>setDoc\<close> is the rejection of the call.
\<close>

definition saveSessionToFirestore ::
  "env \<Rightarrow> string \<Rightarrow> ChatSession \<Rightarrow> 'db world \<Rightarrow> (js_error + unit) \<times> 'db world" where
  "saveSessionToFirestore E uid session w =
     (let w1 = w\<lparr>calls := calls w @ [FirestoreSave uid session]\<rparr>;
          serializedSnapshots = map (\<lambda>(t, x). \<lparr>ts = t, xml = x\<rparr>) (xmlSnapshots session);
          sessionData =
            \<lparr>title_fs = title session,
             messages_fs = messages session,
             diagramXml_fs = diagramXml session,
             createdAt_fs = createdAt session,
             userId = uid,
             thumbnailDataUrl_fs = nullish (thumbnailDataUrl session) Null,
             diagramHistory_fs = nullish (diagramHistory session) Null,
             xmlSnapshots_fs = serializedSnapshots,
             updatedAt_fs = dateNowFirestore E\<rparr>
      in case setDoc (setDocFault E) (uid, id_s session) (sanitizeForFirestore sessionData) (firestore w1) of
           Inl e \<Rightarrow> (Inl e, w1)
         | Inr fs \<Rightarrow> (Inr (), w1\<lparr>firestore := fs\<rparr>))"

text \<open>
  \<open>getSessionFromFirestore\<close> (lines 511-545). The \<open>catch\<close> logs and returns \<open>null\<close>:
  the call never rejects.
\<close>

definition getSessionFromFirestore ::
  "env \<Rightarrow> string \<Rightarrow> string \<Rightarrow> 'db world \<Rightarrow> (js_error + ChatSession option) \<times> 'db world" where
  "getSessionFromFirestore E uid sessionId w =
     (let w1 = w\<lparr>calls := calls w @ [FirestoreGet uid sessionId]\<rparr>
      in case getDoc (getDocFault E) (uid, sessionId) (firestore w1) of
           Inl e \<Rightarrow> (Inr None, w1)
         | Inr None \<Rightarrow> (Inr None, w1)
         | Inr (Some d) \<Rightarrow>
             (Inr (Some
                \<lparr>id_s = sessionId,
                 title = title_fs d,
                 messages = messages_fs d,
                 xmlSnapshots = map (\<lambda>item. (ts item, xml item)) (xmlSnapshots_fs d),
                 diagramXml = diagramXml_fs d,
                 thumbnailDataUrl = thumbnailDataUrl_fs d,
                 diagramHistory = diagramHistory_fs d,
                 createdAt = createdAt_fs d,
                 updatedAt = updatedAt_fs d\<rparr>), w1))"

text \<open>
  \<open>getSessionsMetadataFromFirestore\<close> (lines 547-574). The \<open>catch\<close> logs and returns
  the empty array: the call never rejects.
\<close>

definition metadataOfDoc :: "string \<times> FsDoc \<Rightarrow> SessionMetadata" where
  "metadataOfDoc p =
     (case p of (sid, d) \<Rightarrow>
        \<lparr>id_md = sid,
         title_md = title_fs d,
         createdAt_md = createdAt_fs d,
         updatedAt_md = updatedAt_fs d,
         messageCount = length (messages_fs d),
         hasDiagram = hasDiagramOf (diagramXml_fs d),
         thumbnailDataUrl_md = thumbnailDataUrl_fs d\<rparr>)"

definition getSessionsMetadataFromFirestore ::
  "env \<Rightarrow> string \<Rightarrow> 'db world \<Rightarrow> (js_error + SessionMetadata list) \<times> 'db world" where
  "getSessionsMetadataFromFirestore E uid w =
     (let w1 = w\<lparr>calls := calls w @ [FirestoreList uid]\<rparr>
      in case getDocs (getDocsFault E) uid (firestore w1) of
           Inl e \<Rightarrow> (Inr [], w1)
         | Inr ds \<Rightarrow> (Inr (map metadataOfDoc ds), w1))"

text \<open>\<open>deleteSessionFromFirestore\<close> (lines 576-593): the \<open>catch\<close> logs and rethrows.\<close>

definition deleteSessionFromFirestore ::
  "env \<Rightarrow> string \<Rightarrow> string \<Rightarrow> 'db world \<Rightarrow> (js_error + unit) \<times> 'db world" where
  "deleteSessionFromFirestore E uid sessionId w =
     (let w1 = w\<lparr>calls := calls w @ [FirestoreDelete uid sessionId]\<rparr>
      in case deleteDoc (deleteDocFault E) (uid, sessionId) (firestore w1) of
           Inl e \<Rightarrow> (Inl e, w1)
         | Inr fs \<Rightarrow> (Inr (), w1\<lparr>firestore := fs\<rparr>))"

section \<open>hooks/use-session-manager.ts\<close>

text \<open>
  The module lib/session-storage (the local backend) is a parameter of the hook: its
  functions act on the local database and may reject, \<open>createEmptySession\<close> is the
  session its call returns, \<open>extractTitle\<close> is a function of the messages.
\<close>

record 'db session_storage =
  isIndexedDBAvailable :: bool
  getSession :: "string \<Rightarrow> 'db \<Rightarrow> js_error + ChatSession option"
  saveSession :: "ChatSession \<Rightarrow> 'db \<Rightarrow> js_error + 'db"
  deleteSessionFromDB :: "string \<Rightarrow> 'db \<Rightarrow> js_error + 'db"
  getAllSessionMetadata :: "'db \<Rightarrow> js_error + SessionMetadata list"
  enforceSessionLimit :: "'db \<Rightarrow> js_error + 'db"
  migrateFromLocalStorage :: "'db \<Rightarrow> js_error + 'db"
  createEmptySession :: ChatSession
  extractTitle :: "StoredMessage list \<Rightarrow> string"

text \<open>The state of the hook: the five \<open>useState\<close> cells and the two \<open>useRef\<close> cells.\<close>

record state =
  sessions :: "SessionMetadata list"
  currentSessionId :: "string option"
  currentSession :: "ChatSession option"
  isLoading :: bool
  isAvailable :: bool
  isInitializedRef :: bool
  urlChangeSequenceRef :: nat

text \<open>\<open>user && auth.currentUser\<close>: the uid when the remote backend is the active one.\<close>

definition activeUser :: "env \<Rightarrow> string option" where
  "activeUser E = (case user E of None \<Rightarrow> None | Some uid \<Rightarrow> if authCurrentUser E then Some uid else None)"

subsection \<open>Calls of the local backend\<close>

definition localSave :: "'db session_storage \<Rightarrow> ChatSession \<Rightarrow> 'db world \<Rightarrow> (js_error + unit) \<times> 'db world" where
  "localSave L s w =
     (let w1 = w\<lparr>calls := calls w @ [LocalSave s]\<rparr>
      in case saveSession L s (indexedDB w1) of
           Inl e \<Rightarrow> (Inl e, w1)
         | Inr db \<Rightarrow> (Inr (), w1\<lparr>indexedDB := db\<rparr>))"

definition localEnforceLimit :: "'db session_storage \<Rightarrow> 'db world \<Rightarrow> (js_error + unit) \<times> 'db world" where
  "localEnforceLimit L w =
     (let w1 = w\<lparr>calls := calls w @ [LocalEnforceLimit]\<rparr>
      in case enforceSessionLimit L (indexedDB w1) of
           Inl e \<Rightarrow> (Inl e, w1)
         | Inr db \<Rightarrow> (Inr (), w1\<lparr>indexedDB := db\<rparr>))"

definition localGet :: "'db session_storage \<Rightarrow> string \<Rightarrow> 'db world \<Rightarrow> (js_error + ChatSession option) \<times> 'db world" where
  "localGet L sid w =
     (let w1 = w\<lparr>calls := calls w @ [LocalGet sid]\<rparr>
      in (getSession L sid (indexedDB w1), w1))"

definition localList :: "'db session_storage \<Rightarrow> 'db world \<Rightarrow> (js_error + SessionMetadata list) \<times> 'db world" where
  "localList L w =
     (let w1 = w\<lparr>calls := calls w @ [LocalList]\<rparr>
      in (getAllSessionMetadata L (indexedDB w1), w1))"

definition localDelete :: "'db session_storage \<Rightarrow> string \<Rightarrow> 'db world \<Rightarrow> (js_error + unit) \<times> 'db world" where
  "localDelete L sid w =
     (let w1 = w\<lparr>calls := calls w @ [LocalDelete sid]\<rparr>
      in case deleteSessionFromDB L sid (indexedDB w1) of
           Inl e \<Rightarrow> (Inl e, w1)
         | Inr db \<Rightarrow> (Inr (), w1\<lparr>indexedDB := db\<rparr>))"

definition localMigrate :: "'db session_storage \<Rightarrow> 'db world \<Rightarrow> (js_error + unit) \<times> 'db world" where
  "localMigrate L w =
     (let w1 = w\<lparr>calls := calls w @ [LocalMigrate]\<rparr>
      in case migrateFromLocalStorage L (indexedDB w1) of
           Inl e \<Rightarrow> (Inl e, w1)
         | Inr db \<Rightarrow> (Inr (), w1\<lparr>indexedDB := db\<rparr>))"

subsection \<open>refreshSessions (lines 80-95)\<close>

text \<open>
  The \<open>catch\<close> returns on permission-denied and logs every other error: in both cases
  the list is left as it was and the call resolves.
\<close>

definition refreshSessions :: "env \<Rightarrow> 'db session_storage \<Rightarrow> state \<Rightarrow> 'db world \<Rightarrow> state \<times> 'db world" where
  "refreshSessions E L st w =
     (case activeUser E of
        Some uid \<Rightarrow>
          (case getSessionsMetadataFromFirestore E uid w of
             (Inl e, w1) \<Rightarrow> (st, w1)
           | (Inr metadata, w1) \<Rightarrow> (st\<lparr>sessions := metadata\<rparr>, w1))
      | None \<Rightarrow>
          if isIndexedDBAvailable L then
            (case localList L w of
               (Inl e, w1) \<Rightarrow> (st, w1)
             | (Inr metadata, w1) \<Rightarrow> (st\<lparr>sessions := metadata\<rparr>, w1))
          else (st, w))"

subsection \<open>Saving to and loading from the active backend\<close>

text \<open>
  The block of lines 245-254 and 385-393 (and, followed by \<open>enforceSessionLimit\<close>,
  lines 348-358): a remote save whose permission-denied rejection is caught and dropped,
  every other rejection rethrown; or a local save.
\<close>

definition persistSession :: "env \<Rightarrow> 'db session_storage \<Rightarrow> ChatSession \<Rightarrow> 'db world \<Rightarrow> (js_error + unit) \<times> 'db world" where
  "persistSession E L s w =
     (case activeUser E of
        Some uid \<Rightarrow>
          (case saveSessionToFirestore E uid s w of
             (Inl e, w1) \<Rightarrow> if permissionDenied e then (Inr (), w1) else (Inl e, w1)
           | (Inr u, w1) \<Rightarrow> (Inr (), w1))
      | None \<Rightarrow> localSave L s w)"

text \<open>
  The block of lines 189-202 and 258-270: \<open>session\<close> starts as \<open>null\<close>; a remote read
  whose permission-denied rejection is caught leaves it \<open>null\<close>; or a local read.
\<close>

definition loadSession :: "env \<Rightarrow> 'db session_storage \<Rightarrow> string \<Rightarrow> 'db world \<Rightarrow> (js_error + ChatSession option) \<times> 'db world" where
  "loadSession E L sid w =
     (case activeUser E of
        Some uid \<Rightarrow>
          (case getSessionFromFirestore E uid sid w of
             (Inl e, w1) \<Rightarrow> if permissionDenied e then (Inr None, w1) else (Inl e, w1)
           | (Inr session, w1) \<Rightarrow> (Inr session, w1))
      | None \<Rightarrow> localGet L sid w)"

subsection \<open>The effect on a change of the session id of the URL (lines 178-227)\<close>

text \<open>
  The effect body runs to its first \<open>await\<close>: it returns early before initialisation or
  when no backend is available; otherwise it increments the sequence counter, captures
  it, and, for a truthy id, starts the load. \<open>urlEffect\<close> returns the new state and
  the started request (captured sequence, id), if any.
\<close>

definition truthyId :: "string option \<Rightarrow> string option" where
  "truthyId i = (case i of None \<Rightarrow> None | Some s \<Rightarrow> if s = [] then None else Some s)"

definition urlEffect :: "string option \<Rightarrow> state \<Rightarrow> state \<times> (nat \<times> string) option" where
  "urlEffect initialSessionId st =
     (if \<not> isInitializedRef st then (st, None)
      else if \<not> isAvailable st then (st, None)
      else
        let st1 = st\<lparr>urlChangeSequenceRef := urlChangeSequenceRef st + 1\<rparr>;
            currentSequence = urlChangeSequenceRef st1
        in case truthyId initialSessionId of
             None \<Rightarrow> (st1, None)
           | Some sid \<Rightarrow> (st1, Some (currentSequence, sid)))"

text \<open>
  The rest of \<open>handleSessionIdChange\<close>, run when the load settles (lines 204-219), on
  the state of that moment. A rejected load ends the function with nothing set.
\<close>

definition handleSessionIdChange :: "nat \<Rightarrow> js_error + ChatSession option \<Rightarrow> state \<Rightarrow> state" where
  "handleSessionIdChange currentSequence loaded st =
     (case loaded of
        Inl e \<Rightarrow> st
      | Inr session \<Rightarrow>
          if currentSequence \<noteq> urlChangeSequenceRef st then st
          else (case session of
                  None \<Rightarrow> st
                | Some s \<Rightarrow>
                    if currentSessionId st \<noteq> Some (id_s s)
                    then st\<lparr>currentSession := Some s, currentSessionId := Some (id_s s)\<rparr>
                    else st))"

text \<open>
  The events of the reaction to a change of the URL id (the effect of lines 178-227 and
  the settling of the loads it started), and a run of them in order. The load that
  \<open>init\<close> starts is not an event of this reaction; it is an event of \<open>nav_event\<close>
  below.
\<close>

datatype url_event =
    UrlChanged "string option"
  | LoadSettled nat "js_error + ChatSession option"

fun url_step :: "state \<Rightarrow> url_event \<Rightarrow> state" where
  "url_step st (UrlChanged i) = fst (urlEffect i st)"
| "url_step st (LoadSettled k r) = handleSessionIdChange k r st"

definition url_run :: "state \<Rightarrow> url_event list \<Rightarrow> state" where
  "url_run st evs = foldl url_step st evs"

subsection \<open>Initialisation (lines 98-173)\<close>

text \<open>The effect of lines 98-101, run when \<open>user\<close> changes, re-arms the initialisation.\<close>

definition resetInitialized :: "state \<Rightarrow> state" where
  "resetInitialized st = st\<lparr>isInitializedRef := False\<rparr>"

text \<open>
  The effect of lines 103-173 runs \<open>init\<close> once per arming. \<open>init\<close> has three awaits
  (the migration, the list, the load of the session of the URL); other handlers run
  between them, so it is given in the pieces that run between the awaits, each on the
  state of its moment, and then as a whole.

  \<open>initBegin\<close> is lines 104-116, up to the first await: the guard on the ref, the ref
  set, \<open>isLoading\<close> set, and \<open>isAvailable\<close> decided.
\<close>

definition initBegin :: "env \<Rightarrow> 'db session_storage \<Rightarrow> state \<Rightarrow> state" where
  "initBegin E L st =
     (if isInitializedRef st then st
      else
        let st1 = st\<lparr>isInitializedRef := True, isLoading := True\<rparr>
        in if user E = None \<and> \<not> isIndexedDBAvailable L
           then st1\<lparr>isAvailable := False, isLoading := False\<rparr>
           else st1\<lparr>isAvailable := True\<rparr>)"

text \<open>
  Lines 125-137: the list from the active backend; a permission-denied rejection of the
  remote list is caught and leaves the list unset (\<open>None\<close>).
\<close>

definition initListSessions ::
  "env \<Rightarrow> 'db session_storage \<Rightarrow> 'db world \<Rightarrow> (js_error + SessionMetadata list option) \<times> 'db world" where
  "initListSessions E L w =
     (case activeUser E of
        Some uid \<Rightarrow>
          (case getSessionsMetadataFromFirestore E uid w of
             (Inl e, w1) \<Rightarrow> if permissionDenied e then (Inr None, w1) else (Inl e, w1)
           | (Inr metadata, w1) \<Rightarrow> (Inr (Some metadata), w1))
      | None \<Rightarrow>
          (case localList L w of
             (Inl e, w1) \<Rightarrow> (Inl e, w1)
           | (Inr metadata, w1) \<Rightarrow> (Inr (Some metadata), w1)))"

definition initSessionsListed :: "SessionMetadata list option \<Rightarrow> state \<Rightarrow> state" where
  "initSessionsListed listed st = (case listed of None \<Rightarrow> st | Some metadata \<Rightarrow> st\<lparr>sessions := metadata\<rparr>)"

text \<open>The \<open>catch\<close> and \<open>finally\<close> of lines 165-169, and the end without a session to load.\<close>

definition initFinally :: "state \<Rightarrow> state" where
  "initFinally st = st\<lparr>isLoading := False\<rparr>"

text \<open>
  Lines 158-161 with the \<open>finally\<close>, run when the load of lines 141-156 settles: a
  session that was found becomes the current one. No test of the sequence counter and
  no comparison with the current id is made here.
\<close>

definition initLoadSettled :: "js_error + ChatSession option \<Rightarrow> state \<Rightarrow> state" where
  "initLoadSettled loaded st =
     (case loaded of
        Inl e \<Rightarrow> initFinally st
      | Inr None \<Rightarrow> initFinally st
      | Inr (Some session) \<Rightarrow>
          initFinally (st\<lparr>currentSession := Some session, currentSessionId := Some (id_s session)\<rparr>))"

text \<open>The whole effect, when nothing else runs between its awaits.\<close>

definition init ::
  "env \<Rightarrow> 'db session_storage \<Rightarrow> string option \<Rightarrow> state \<Rightarrow> 'db world \<Rightarrow> state \<times> 'db world" where
  "init E L initialSessionId st w =
     (if isInitializedRef st then (st, w)
      else
        let st1 = initBegin E L st
        in if user E = None \<and> \<not> isIndexedDBAvailable L then (st1, w)
           else
             case (if user E = None then localMigrate L w else (Inr (), w)) of
               (Inl e, w1) \<Rightarrow> (initFinally st1, w1)
             | (Inr u, w1) \<Rightarrow>
                 (case initListSessions E L w1 of
                    (Inl e, w2) \<Rightarrow> (initFinally st1, w2)
                  | (Inr listed, w2) \<Rightarrow>
                      (let st2 = initSessionsListed listed st1
                       in case truthyId initialSessionId of
                            None \<Rightarrow> (initFinally st2, w2)
                          | Some sid \<Rightarrow>
                              (case loadSession E L sid w2 of
                                 (loaded, w3) \<Rightarrow> (initLoadSettled loaded st2, w3)))))"

text \<open>
  Everything that writes the current session in reaction to the session id of the URL:
  the events of the URL reaction and the pieces of \<open>init\<close>, run in any order.
\<close>

datatype nav_event =
    Reaction url_event
  | InitBegun
  | InitSessionsListed "SessionMetadata list option"
  | InitLoadSettled "js_error + ChatSession option"
  | InitEnded

fun nav_step :: "env \<Rightarrow> 'db session_storage \<Rightarrow> state \<Rightarrow> nav_event \<Rightarrow> state" where
  "nav_step E L st (Reaction ev) = url_step st ev"
| "nav_step E L st InitBegun = initBegin E L st"
| "nav_step E L st (InitSessionsListed listed) = initSessionsListed listed st"
| "nav_step E L st (InitLoadSettled loaded) = initLoadSettled loaded st"
| "nav_step E L st InitEnded = initFinally st"

definition nav_run :: "env \<Rightarrow> 'db session_storage \<Rightarrow> state \<Rightarrow> nav_event list \<Rightarrow> state" where
  "nav_run E L st evs = foldl (nav_step E L) st evs"

subsection \<open>switchSession (lines 239-290)\<close>

text \<open>
  \<open>switchSession\<close> and \<open>deleteSession\<close> are given as called through the callback of the
  current render, whose captured \<open>currentSessionId\<close> and \<open>currentSession\<close> are those of
  the state.
\<close>

definition saveBeforeSwitch :: "env \<Rightarrow> 'db session_storage \<Rightarrow> state \<Rightarrow> 'db world \<Rightarrow> (js_error + unit) \<times> 'db world" where
  "saveBeforeSwitch E L st w =
     (case currentSession st of
        None \<Rightarrow> (Inr (), w)
      | Some cs \<Rightarrow> if length (messages cs) > 0 then persistSession E L cs w else (Inr (), w))"

definition switchSession ::
  "env \<Rightarrow> 'db session_storage \<Rightarrow> string \<Rightarrow> state \<Rightarrow> 'db world \<Rightarrow> (js_error + SessionData option) \<times> state \<times> 'db world" where
  "switchSession E L sid st w =
     (if Some sid = currentSessionId st then (Inr None, st, w)
      else case saveBeforeSwitch E L st w of
             (Inl e, w1) \<Rightarrow> (Inl e, st, w1)
           | (Inr u, w1) \<Rightarrow>
               (case loadSession E L sid w1 of
                  (Inl e, w2) \<Rightarrow> (Inl e, st, w2)
                | (Inr None, w2) \<Rightarrow> (Inr None, st, w2)
                | (Inr (Some session), w2) \<Rightarrow>
                    (Inr (Some \<lparr>messages_sd = messages session,
                                xmlSnapshots_sd = xmlSnapshots session,
                                diagramXml_sd = diagramXml session,
                                thumbnailDataUrl_sd = thumbnailDataUrl session,
                                diagramHistory_sd = diagramHistory session\<rparr>),
                     st\<lparr>currentSession := Some session, currentSessionId := Some (id_s session)\<rparr>,
                     w2)))"

subsection \<open>deleteSession (lines 293-318)\<close>

text \<open>Lines 297-305: the delete on the active backend.\<close>

definition backendDelete :: "env \<Rightarrow> 'db session_storage \<Rightarrow> string \<Rightarrow> 'db world \<Rightarrow> (js_error + unit) \<times> 'db world" where
  "backendDelete E L sid w =
     (case activeUser E of
        Some uid \<Rightarrow>
          (case deleteSessionFromFirestore E uid sid w of
             (Inl e, w1) \<Rightarrow> if permissionDenied e then (Inr (), w1) else (Inl e, w1)
           | (Inr u, w1) \<Rightarrow> (Inr (), w1))
      | None \<Rightarrow> localDelete L sid w)"

definition deleteSession ::
  "env \<Rightarrow> 'db session_storage \<Rightarrow> string \<Rightarrow> state \<Rightarrow> 'db world \<Rightarrow> (js_error + bool) \<times> state \<times> 'db world" where
  "deleteSession E L sid st w =
     (let wasCurrentSession = (Some sid = currentSessionId st)
      in case backendDelete E L sid w of
           (Inl e, w1) \<Rightarrow> (Inl e, st, w1)
         | (Inr u, w1) \<Rightarrow>
             (let st1 = (if wasCurrentSession
                         then st\<lparr>currentSession := None, currentSessionId := None\<rparr>
                         else st)
              in case refreshSessions E L st1 w1 of
                   (st2, w2) \<Rightarrow> (Inr wasCurrentSession, st2, w2)))"

subsection \<open>saveCurrentSession (lines 322-416)\<close>

text \<open>
  \<open>forSessionId\<close> is \<open>None\<close> when the argument is \<open>undefined\<close>, \<open>Some None\<close> when it
  is \<open>null\<close>, \<open>Some (Some s)\<close> for a string.
\<close>

definition updateMetadata :: "ChatSession \<Rightarrow> SessionMetadata \<Rightarrow> SessionMetadata" where
  "updateMetadata updatedSession s =
     (if id_md s = id_s updatedSession
      then s\<lparr>title_md := title updatedSession,
             updatedAt_md := updatedAt updatedSession,
             messageCount := length (messages updatedSession),
             hasDiagram := hasDiagramOf (diagramXml updatedSession),
             thumbnailDataUrl_md := thumbnailDataUrl updatedSession\<rparr>
      else s)"

definition newSessionOf :: "'db session_storage \<Rightarrow> SessionData \<Rightarrow> ChatSession" where
  "newSessionOf L data =
     (createEmptySession L)
       \<lparr>messages := messages_sd data,
        xmlSnapshots := xmlSnapshots_sd data,
        diagramXml := diagramXml_sd data,
        thumbnailDataUrl := thumbnailDataUrl_sd data,
        diagramHistory := diagramHistory_sd data,
        title := extractTitle L (messages_sd data)\<rparr>"

definition updatedSessionOf :: "env \<Rightarrow> 'db session_storage \<Rightarrow> SessionData \<Rightarrow> ChatSession \<Rightarrow> ChatSession" where
  "updatedSessionOf E L data cs =
     cs\<lparr>messages := messages_sd data,
        xmlSnapshots := xmlSnapshots_sd data,
        diagramXml := diagramXml_sd data,
        thumbnailDataUrl := nullish (thumbnailDataUrl_sd data) (thumbnailDataUrl cs),
        diagramHistory := nullish (diagramHistory_sd data) (diagramHistory cs),
        updatedAt := dateNow E,
        title := (if title cs = ''New Chat'' \<and> length (messages_sd data) > 0
                  then extractTitle L (messages_sd data)
                  else title cs)\<rparr>"

text \<open>Lines 348-358: the save of a new session, with the limit pass on the local backend.\<close>

definition persistNewSession :: "env \<Rightarrow> 'db session_storage \<Rightarrow> ChatSession \<Rightarrow> 'db world \<Rightarrow> (js_error + unit) \<times> 'db world" where
  "persistNewSession E L s w =
     (case activeUser E of
        Some uid \<Rightarrow> persistSession E L s w
      | None \<Rightarrow>
          (case localSave L s w of
             (Inl e, w1) \<Rightarrow> (Inl e, w1)
           | (Inr u, w1) \<Rightarrow> localEnforceLimit L w1))"

text \<open>
  The function is built by \<open>useCallback\<close> with \<open>currentSession\<close> and
  \<open>currentSessionId\<close> among its dependencies (line 415): the guard of line 331 and the
  test of line 336 read the values of the render that built the callback, here the
  state \<open>captured\<close>, while the setters write the state of the moment of the call,
  \<open>st\<close>. \<open>saveCurrentSessionCallback captured\<close> is the callback built by the render
  whose state was \<open>captured\<close>.
\<close>

definition saveCurrentSessionCallback ::
  "state \<Rightarrow> env \<Rightarrow> 'db session_storage \<Rightarrow> SessionData \<Rightarrow> string option option \<Rightarrow> state \<Rightarrow> 'db world
     \<Rightarrow> (js_error + unit) \<times> state \<times> 'db world" where
  "saveCurrentSessionCallback captured E L data forSessionId st w =
     (if (case forSessionId of None \<Rightarrow> False | Some x \<Rightarrow> x \<noteq> currentSessionId captured)
      then (Inr (), st, w)
      else case currentSession captured of
             None \<Rightarrow>
               (let newSession = newSessionOf L data
                in case persistNewSession E L newSession w of
                     (Inl e, w1) \<Rightarrow> (Inl e, st, w1)
                   | (Inr u, w1) \<Rightarrow>
                       (case refreshSessions E L
                               (st\<lparr>currentSession := Some newSession,
                                   currentSessionId := Some (id_s newSession)\<rparr>) w1 of
                          (st2, w2) \<Rightarrow> (Inr (), st2, w2)))
           | Some cs \<Rightarrow>
               (let updatedSession = updatedSessionOf E L data cs
                in case persistSession E L updatedSession w of
                     (Inl e, w1) \<Rightarrow> (Inl e, st, w1)
                   | (Inr u, w1) \<Rightarrow>
                       (Inr (),
                        st\<lparr>currentSession := Some updatedSession,
                           sessions := map (updateMetadata updatedSession) (sessions st)\<rparr>,
                        w1)))"

text \<open>
  A call through the callback of the current render: the captured values are those of
  the state at call time.
\<close>

definition saveCurrentSession ::
  "env \<Rightarrow> 'db session_storage \<Rightarrow> SessionData \<Rightarrow> string option option \<Rightarrow> state \<Rightarrow> 'db world
     \<Rightarrow> (js_error + unit) \<times> state \<times> 'db world" where
  "saveCurrentSession E L data forSessionId st w =
     saveCurrentSessionCallback st E L data forSessionId st w"

subsection \<open>clearCurrentSession (lines 419-422)\<close>

definition clearCurrentSession :: "state \<Rightarrow> state" where
  "clearCurrentSession st = st\<lparr>currentSession := None, currentSessionId := None\<rparr>"

section \<open>Notions used to state the properties\<close>

text \<open>The calls a step added to the trace, and the call each block issues.\<close>

definition newCalls :: "'db world \<Rightarrow> 'db world \<Rightarrow> backend_call list" where
  "newCalls w w' = drop (length (calls w)) (calls w')"

definition isSaveCall :: "backend_call \<Rightarrow> bool" where
  "isSaveCall c = (case c of FirestoreSave uid s \<Rightarrow> True | LocalSave s \<Rightarrow> True | _ \<Rightarrow> False)"

definition saveCallOf :: "env \<Rightarrow> ChatSession \<Rightarrow> backend_call" where
  "saveCallOf E s = (case activeUser E of Some uid \<Rightarrow> FirestoreSave uid s | None \<Rightarrow> LocalSave s)"

definition loadCallOf :: "env \<Rightarrow> string \<Rightarrow> backend_call" where
  "loadCallOf E sid = (case activeUser E of Some uid \<Rightarrow> FirestoreGet uid sid | None \<Rightarrow> LocalGet sid)"




subsection \<open>Concrete inputs\<close>

text \<open>
  A local backend that keeps the sessions in an association list, two sessions, and
  states, surroundings and worlds built from them; the operations are evaluated on these.
\<close>

definition metadataOfSession :: "ChatSession \<Rightarrow> SessionMetadata" where
  "metadataOfSession s =
     \<lparr>id_md = id_s s, title_md = title s, createdAt_md = createdAt s, updatedAt_md = updatedAt s,
      messageCount = length (messages s), hasDiagram = hasDiagramOf (diagramXml s),
      thumbnailDataUrl_md = thumbnailDataUrl s\<rparr>"

definition example_storage :: "(string \<times> ChatSession) list session_storage" where
  "example_storage =
     \<lparr>isIndexedDBAvailable = True,
      getSession = (\<lambda>sid db. Inr (map_of db sid)),
      saveSession = (\<lambda>s db. Inr (AList.update (id_s s) s db)),
      deleteSessionFromDB = (\<lambda>sid db. Inr (AList.delete sid db)),
      getAllSessionMetadata = (\<lambda>db. Inr (map (\<lambda>p. metadataOfSession (snd p)) db)),
      enforceSessionLimit = (\<lambda>db. Inr db),
      migrateFromLocalStorage = (\<lambda>db. Inr db),
      createEmptySession =
        \<lparr>id_s = ''n'', title = ''New Chat'', messages = [], xmlSnapshots = [], diagramXml = [],
         thumbnailDataUrl = Undefined, diagramHistory = Undefined, createdAt = 2500, updatedAt = 2500\<rparr>,
      extractTitle = (\<lambda>ms. case ms of [] \<Rightarrow> ''New Chat'' | m # rest \<Rightarrow> content m)\<rparr>"

definition example_message :: StoredMessage where
  "example_message = \<lparr>role = ''user'', content = ''draw a cat'', timestamp = 1000\<rparr>"

definition example_session :: ChatSession where
  "example_session =
     \<lparr>id_s = ''a'', title = ''Cats'', messages = [example_message],
      xmlSnapshots = [(1, ''<x/>''), (2, ''<y/>'')], diagramXml = ''<y/>'',
      thumbnailDataUrl = Undefined, diagramHistory = Undefined, createdAt = 1000, updatedAt = 2000\<rparr>"

definition example_other :: ChatSession where
  "example_other =
     \<lparr>id_s = ''b'', title = ''New Chat'', messages = [],
      xmlSnapshots = [], diagramXml = [],
      thumbnailDataUrl = Null, diagramHistory = Null, createdAt = 1500, updatedAt = 1500\<rparr>"

definition example_data :: SessionData where
  "example_data =
     \<lparr>messages_sd = [example_message, \<lparr>role = ''assistant'', content = ''done'', timestamp = 1100\<rparr>],
      xmlSnapshots_sd = [(1, ''<x/>'')], diagramXml_sd = ''<z/>'',
      thumbnailDataUrl_sd = Undefined, diagramHistory_sd = Undefined\<rparr>"

definition example_state :: state where
  "example_state =
     \<lparr>sessions = [metadataOfSession example_session, metadataOfSession example_other],
      currentSessionId = Some ''a'', currentSession = Some example_session,
      isLoading = False, isAvailable = True, isInitializedRef = True, urlChangeSequenceRef = 0\<rparr>"

definition example_blank :: state where
  "example_blank =
     \<lparr>sessions = [], currentSessionId = None, currentSession = None,
      isLoading = False, isAvailable = True, isInitializedRef = True, urlChangeSequenceRef = 0\<rparr>"

definition example_env :: env where
  "example_env =
     \<lparr>user = Some ''u1'', authCurrentUser = True,
      setDocFault = None, getDocFault = None, getDocsFault = None, deleteDocFault = None,
      dateNow = 3000, dateNowFirestore = 3001\<rparr>"

definition example_local_env :: env where
  "example_local_env = example_env\<lparr>user := None, authCurrentUser := False\<rparr>"

definition example_world :: "(string \<times> ChatSession) list world" where
  "example_world = \<lparr>firestore = [], indexedDB = [], calls = []\<rparr>"

definition example_remote_world :: "(string \<times> ChatSession) list world" where
  "example_remote_world =
     \<lparr>firestore =
        [((''u1'', ''b''),
          \<lparr>title_fs = ''New Chat'', messages_fs = [], diagramXml_fs = [], createdAt_fs = 1500,
           userId = ''u1'', thumbnailDataUrl_fs = Null, diagramHistory_fs = Null,
           xmlSnapshots_fs = [], updatedAt_fs = 1500\<rparr>)],
      indexedDB = [], calls = []\<rparr>"

text \<open>
  The state at mount, before any effect has run; the state after a switch from session
  \<open>a\<close> to session \<open>b\<close>; a world whose remote store holds both sessions.
\<close>

definition example_unmounted :: state where
  "example_unmounted =
     \<lparr>sessions = [], currentSessionId = None, currentSession = None,
      isLoading = True, isAvailable = False, isInitializedRef = False, urlChangeSequenceRef = 0\<rparr>"

definition example_switched :: state where
  "example_switched = example_state\<lparr>currentSession := Some example_other, currentSessionId := Some ''b''\<rparr>"

definition example_both_world :: "(string \<times> ChatSession) list world" where
  "example_both_world =
     example_remote_world
       \<lparr>firestore :=
          ((''u1'', ''a''),
           \<lparr>title_fs = ''Cats'', messages_fs = [example_message], diagramXml_fs = ''<y/>'',
            createdAt_fs = 1000, userId = ''u1'', thumbnailDataUrl_fs = Null, diagramHistory_fs = Null,
            xmlSnapshots_fs = [\<lparr>ts = 1, xml = ''<x/>''\<rparr>, \<lparr>ts = 2, xml = ''<y/>''\<rparr>],
            updatedAt_fs = 2000\<rparr>) # firestore example_remote_world\<rparr>"

text \<open>
  What the loads of the two sessions and the list of \<open>init\<close> return from that world.
\<close>

definition example_loaded :: "string \<Rightarrow> js_error + ChatSession option" where
  "example_loaded sid = fst (loadSession example_env example_storage sid example_both_world)"

definition example_listed :: "SessionMetadata list option" where
  "example_listed =
     (case fst (initListSessions example_env example_storage example_both_world) of
        Inl e \<Rightarrow> None | Inr listed \<Rightarrow> listed)"

definition unavailable :: js_error where
  "unavailable = JsError (Some ''unavailable'')"

definition denied :: js_error where
  "denied = JsError (Some ''permission-denied'')"

section \<open>Properties\<close>

subsection \<open>Facts about the building blocks\<close>

lemma snapshots_roundtrip:
  "map (\<lambda>item. (ts item, xml item)) (map sanitizeSnapshot (map (\<lambda>(t, x). \<lparr>ts = t, xml = x\<rparr>) xs)) = xs"
  by (induction xs) (auto simp add: sanitizeSnapshot_def)

lemma sanitizeMessage_id: "map sanitizeMessage ms = ms"
  by (induction ms) (simp_all add: sanitizeMessage_def)

lemma saveSessionToFirestore_ok:
  "setDocFault E = None \<Longrightarrow>
   saveSessionToFirestore E uid s w =
     (Inr (), w\<lparr>calls := calls w @ [FirestoreSave uid s],
                firestore := AList.update (uid, id_s s)
                  (sanitizeForFirestore
                    \<lparr>title_fs = title s, messages_fs = messages s, diagramXml_fs = diagramXml s,
                     createdAt_fs = createdAt s, userId = uid,
                     thumbnailDataUrl_fs = nullish (thumbnailDataUrl s) Null,
                     diagramHistory_fs = nullish (diagramHistory s) Null,
                     xmlSnapshots_fs = map (\<lambda>(t, x). \<lparr>ts = t, xml = x\<rparr>) (xmlSnapshots s),
                     updatedAt_fs = dateNowFirestore E\<rparr>) (firestore w)\<rparr>)"
  by (simp add: saveSessionToFirestore_def setDoc_def Let_def)

lemma saveSessionToFirestore_fault:
  "setDocFault E = Some e \<Longrightarrow>
   saveSessionToFirestore E uid s w = (Inl e, w\<lparr>calls := calls w @ [FirestoreSave uid s]\<rparr>)"
  by (simp add: saveSessionToFirestore_def setDoc_def Let_def)

lemma persistSession_remote:
  "activeUser E = Some uid \<Longrightarrow>
   persistSession E L s w =
     (case setDocFault E of
        None \<Rightarrow> (Inr (), snd (saveSessionToFirestore E uid s w))
      | Some e \<Rightarrow> (if permissionDenied e then Inr () else Inl e,
                   w\<lparr>calls := calls w @ [FirestoreSave uid s]\<rparr>))"
  by (cases "setDocFault E")
     (simp_all add: persistSession_def saveSessionToFirestore_ok saveSessionToFirestore_fault)

lemma persistSession_calls:
  "calls (snd (persistSession E L s w)) = calls w @ [saveCallOf E s]"
  by (cases "activeUser E"; cases "setDocFault E")
     (auto simp add: persistSession_def saveCallOf_def localSave_def Let_def
        saveSessionToFirestore_ok saveSessionToFirestore_fault split: sum.splits)

lemma loadSession_calls:
  "calls (snd (loadSession E L sid w)) = calls w @ [loadCallOf E sid]"
  by (auto simp add: loadSession_def loadCallOf_def localGet_def getSessionFromFirestore_def Let_def
        split: option.splits sum.splits)

lemma loadSession_firestore:
  "firestore (snd (loadSession E L sid w)) = firestore w"
  by (auto simp add: loadSession_def localGet_def getSessionFromFirestore_def Let_def
        split: option.splits sum.splits)


lemma refreshSessions_current:
  "currentSession (fst (refreshSessions E L st w)) = currentSession st"
  "currentSessionId (fst (refreshSessions E L st w)) = currentSessionId st"
  by (auto simp add: refreshSessions_def localList_def
        getSessionsMetadataFromFirestore_def Let_def split: option.splits sum.splits prod.splits)


lemmas example_defs =
  example_storage_def example_message_def example_session_def example_other_def example_data_def
  example_state_def example_blank_def example_env_def example_local_env_def example_world_def
  example_remote_world_def example_unmounted_def example_switched_def example_both_world_def
  unavailable_def denied_def metadataOfSession_def

subsection \<open>The sequence guard of the URL reaction\<close>

lemma urlEffect_keeps [simp]:
  "currentSession (fst (urlEffect i st)) = currentSession st"
  "currentSessionId (fst (urlEffect i st)) = currentSessionId st"
  "sessions (fst (urlEffect i st)) = sessions st"
  "isInitializedRef (fst (urlEffect i st)) = isInitializedRef st"
  "isAvailable (fst (urlEffect i st)) = isAvailable st"
  by (simp_all add: urlEffect_def Let_def split: option.splits)

lemma urlEffect_counter:
  "urlChangeSequenceRef (fst (urlEffect i st)) =
     (if isInitializedRef st \<and> isAvailable st then urlChangeSequenceRef st + 1 else urlChangeSequenceRef st)"
  by (simp add: urlEffect_def Let_def split: option.splits)

lemma handleSessionIdChange_keeps [simp]:
  "urlChangeSequenceRef (handleSessionIdChange k r st) = urlChangeSequenceRef st"
  "isInitializedRef (handleSessionIdChange k r st) = isInitializedRef st"
  "isAvailable (handleSessionIdChange k r st) = isAvailable st"
  "sessions (handleSessionIdChange k r st) = sessions st"
  by (simp_all add: handleSessionIdChange_def split: sum.splits option.splits)

lemma url_step_keeps [simp]:
  "isInitializedRef (url_step st ev) = isInitializedRef st"
  "isAvailable (url_step st ev) = isAvailable st"
  by (cases ev; simp)+

lemma url_step_counter_mono: "urlChangeSequenceRef st \<le> urlChangeSequenceRef (url_step st ev)"
  by (cases ev) (simp_all add: urlEffect_counter)

lemma url_run_keeps [simp]:
  "isInitializedRef (url_run st evs) = isInitializedRef st"
  "isAvailable (url_run st evs) = isAvailable st"
  unfolding url_run_def by (induction evs arbitrary: st; simp)+

lemma url_run_counter_mono: "urlChangeSequenceRef st \<le> urlChangeSequenceRef (url_run st evs)"
  unfolding url_run_def
proof (induction evs arbitrary: st)
  case Nil
  show ?case by simp
next
  case (Cons ev evs)
  have "urlChangeSequenceRef st \<le> urlChangeSequenceRef (url_step st ev)"
    by (rule url_step_counter_mono)
  also have "\<dots> \<le> urlChangeSequenceRef (foldl url_step (url_step st ev) evs)"
    by (rule Cons.IH)
  finally show ?case by simp
qed

lemma handleSessionIdChange_stale:
  "k \<noteq> urlChangeSequenceRef st \<Longrightarrow> handleSessionIdChange k r st = st"
  by (simp add: handleSessionIdChange_def split: sum.splits)

lemma handleSessionIdChange_found:
  "handleSessionIdChange (urlChangeSequenceRef st) (Inr (Some s)) st = st' \<Longrightarrow>
   currentSessionId st' = Some (id_s s)"
  by (auto simp add: handleSessionIdChange_def)

text \<open>
  The sequence counter is written by the effect only: the other operations of the hook
  leave it as it is, so they may run between the events of the reaction.
\<close>

lemma refreshSessions_keeps_refs:
  "urlChangeSequenceRef (fst (refreshSessions E L st w)) = urlChangeSequenceRef st"
  "isInitializedRef (fst (refreshSessions E L st w)) = isInitializedRef st"
  "isAvailable (fst (refreshSessions E L st w)) = isAvailable st"
  by (auto simp add: refreshSessions_def split: option.splits sum.splits prod.splits)

lemma operations_keep_sequence:
  "urlChangeSequenceRef (fst (snd (switchSession E L sid st w))) = urlChangeSequenceRef st"
  "urlChangeSequenceRef (fst (snd (deleteSession E L sid st w))) = urlChangeSequenceRef st"
  "urlChangeSequenceRef (fst (snd (saveCurrentSession E L data f st w))) = urlChangeSequenceRef st"
  "urlChangeSequenceRef (clearCurrentSession st) = urlChangeSequenceRef st"
proof -
  show "urlChangeSequenceRef (fst (snd (switchSession E L sid st w))) = urlChangeSequenceRef st"
    by (auto simp add: switchSession_def split: option.splits sum.splits prod.splits)
  show "urlChangeSequenceRef (fst (snd (deleteSession E L sid st w))) = urlChangeSequenceRef st"
  proof (cases "backendDelete E L sid w")
    case (Pair r w1)
    then show ?thesis
      using refreshSessions_keeps_refs(1) [of E L _ w1]
      by (cases r) (auto simp add: deleteSession_def Let_def split: prod.splits)
  qed
  show "urlChangeSequenceRef (fst (snd (saveCurrentSession E L data f st w))) = urlChangeSequenceRef st"
  proof (cases "currentSession st")
    case None
    obtain r w1 where p: "persistNewSession E L (newSessionOf L data) w = (r, w1)"
      by (cases "persistNewSession E L (newSessionOf L data) w") auto
    show ?thesis
      using None p refreshSessions_keeps_refs(1) [of E L _ w1]
      by (cases r) (auto simp add: saveCurrentSession_def saveCurrentSessionCallback_def Let_def split: prod.splits)
  next
    case (Some cs)
    then show ?thesis
      by (auto simp add: saveCurrentSession_def saveCurrentSessionCallback_def Let_def split: sum.splits prod.splits)
  qed
  show "urlChangeSequenceRef (clearCurrentSession st) = urlChangeSequenceRef st"
    by (simp add: clearCurrentSession_def)
qed

subsection \<open>Stale debounced saves\<close>







subsection \<open>Out-of-order loads\<close>

text \<open>
  The loads of the URL reaction are guarded. Let the effect run for a desired id \<open>A\<close>
  and later, after any events of the URL reaction, for a desired id \<open>B\<close>, both past the
  initialisation and availability checks. Then the sequence captured for \<open>A\<close> is smaller
  than the one captured for \<open>B\<close> and differs from the counter at every later moment, so
  the load that the reaction started for \<open>A\<close>, whenever it settles after the effect for
  \<open>B\<close> has run, leaves the state as it is; and the two loads of the reaction settle in
  either order with the same result.
\<close>

lemma stale_load_discarded:
  assumes "isInitializedRef st" and "isAvailable st"
  shows "let stA = fst (urlEffect A st);
             kA = urlChangeSequenceRef stA;
             stB = fst (urlEffect B (url_run stA evs1));
             kB = urlChangeSequenceRef stB;
             later = url_run stB evs2
         in kA < kB \<and> kA \<noteq> urlChangeSequenceRef later
            \<and> handleSessionIdChange kA rA later = later
            \<and> handleSessionIdChange kA rA (handleSessionIdChange kB rB stB) = handleSessionIdChange kB rB stB
            \<and> handleSessionIdChange kB rB (handleSessionIdChange kA rA stB) = handleSessionIdChange kB rB stB
            \<and> (\<forall>sB. rB = Inr (Some sB) \<longrightarrow>
                 currentSessionId (handleSessionIdChange kA rA (handleSessionIdChange kB rB stB)) = Some (id_s sB)
               \<and> currentSessionId (handleSessionIdChange kB rB (handleSessionIdChange kA rA stB)) = Some (id_s sB))"
proof -
  define stA where "stA = fst (urlEffect A st)"
  define kA where "kA = urlChangeSequenceRef stA"
  define mid where "mid = url_run stA evs1"
  define stB where "stB = fst (urlEffect B mid)"
  define kB where "kB = urlChangeSequenceRef stB"
  define later where "later = url_run stB evs2"
  have mid_ok: "isInitializedRef mid \<and> isAvailable mid"
    using assms by (simp add: mid_def stA_def)
  have "kA \<le> urlChangeSequenceRef mid"
    unfolding kA_def mid_def by (rule url_run_counter_mono)
  moreover have "kB = urlChangeSequenceRef mid + 1"
    using mid_ok by (simp add: kB_def stB_def urlEffect_counter)
  ultimately have lt: "kA < kB" by simp
  have "kB \<le> urlChangeSequenceRef later"
    unfolding kB_def later_def by (rule url_run_counter_mono)
  with lt have ne: "kA \<noteq> urlChangeSequenceRef later" by simp
  then have 1: "handleSessionIdChange kA rA later = later"
    by (rule handleSessionIdChange_stale)
  have 2: "handleSessionIdChange kA rA (handleSessionIdChange kB r stB) = handleSessionIdChange kB r stB" for r
    using lt by (intro handleSessionIdChange_stale) (simp add: kB_def)
  have 3: "handleSessionIdChange kA rA stB = stB"
    using lt by (intro handleSessionIdChange_stale) (simp add: kB_def)
  have 4: "currentSessionId (handleSessionIdChange kB (Inr (Some sB)) stB) = Some (id_s sB)" for sB
    using handleSessionIdChange_found [of stB sB] by (simp add: kB_def)
  show ?thesis
    using lt ne 1 2 3 4
    by (simp add: Let_def stA_def [symmetric] kA_def [symmetric] mid_def [symmetric]
        stB_def [symmetric] kB_def [symmetric] later_def [symmetric])
qed

lemma stale_load_discarded_example:
  "isInitializedRef example_blank \<and> isAvailable example_blank
   \<and> url_run example_blank
       [UrlChanged (Some ''a''), UrlChanged (Some ''b''),
        LoadSettled 2 (Inr (Some example_other)), LoadSettled 1 (Inr (Some example_session))]
     = example_blank\<lparr>urlChangeSequenceRef := 2, currentSession := Some example_other,
                      currentSessionId := Some ''b''\<rparr>
   \<and> (let stA = fst (urlEffect (Some ''a'') example_blank);
           kA = urlChangeSequenceRef stA;
           stB = fst (urlEffect (Some ''b'') stA);
           kB = urlChangeSequenceRef stB
       in kA = 1 \<and> kB = 2
          \<and> handleSessionIdChange kA (Inr (Some example_session)) stB = stB
          \<and> currentSessionId
              (handleSessionIdChange kA (Inr (Some example_session))
                 (handleSessionIdChange kB (Inr (Some example_other)) stB)) = Some ''b''
          \<and> currentSessionId
              (handleSessionIdChange kB (Inr (Some example_other))
                 (handleSessionIdChange kA (Inr (Some example_session)) stB)) = Some ''b'')"
proof -
  have h1: "isInitializedRef example_blank" by (simp add: example_blank_def)
  have h2: "isAvailable example_blank" by (simp add: example_blank_def)
  have k: "urlChangeSequenceRef (fst (urlEffect (Some ''a'') example_blank)) = 1"
          "urlChangeSequenceRef (fst (urlEffect (Some ''b'') (fst (urlEffect (Some ''a'') example_blank)))) = 2"
    by (simp_all add: urlEffect_counter example_blank_def)
  have i: "id_s example_other = ''b''" by (simp add: example_other_def)
  have run: "url_run example_blank
       [UrlChanged (Some ''a''), UrlChanged (Some ''b''),
        LoadSettled 2 (Inr (Some example_other)), LoadSettled 1 (Inr (Some example_session))]
     = example_blank\<lparr>urlChangeSequenceRef := 2, currentSession := Some example_other,
                      currentSessionId := Some ''b''\<rparr>"
    by (simp add: example_blank_def example_other_def example_session_def url_run_def urlEffect_def
      truthyId_def handleSessionIdChange_def Let_def)
  note T = stale_load_discarded
          [OF h1 h2, of "Some ''a''" "Some ''b''" "[]" "[]" "Inr (Some example_session)"
              "Inr (Some example_other)", unfolded Let_def url_run_def foldl.simps k]
  show ?thesis
    unfolding Let_def k
    using h1 h2 run T i by auto
qed

text \<open>
  The load of \<open>init\<close> is not guarded: when it settles with a session, that session
  becomes the current one, whatever the sequence counter and the current id are.
\<close>

lemma initLoadSettled_unguarded:
  "currentSession (initLoadSettled (Inr (Some s)) st) = Some s"
  "currentSessionId (initLoadSettled (Inr (Some s)) st) = Some (id_s s)"
  "urlChangeSequenceRef (initLoadSettled loaded st) = urlChangeSequenceRef st"
  by (simp_all add: initLoadSettled_def initFinally_def split: sum.splits option.splits)

lemma example_loaded_values:
  "example_loaded ''a'' =
     Inr (Some (example_session\<lparr>thumbnailDataUrl := Null, diagramHistory := Null\<rparr>))"
  "example_loaded ''b'' = Inr (Some example_other)"
  by (simp_all add: example_loaded_def loadSession_def getSessionFromFirestore_def getDoc_def
      activeUser_def Let_def example_defs)

lemma example_listed_value:
  "map_option (map id_md) example_listed = Some [''a'', ''b'']"
  by (simp add: example_listed_def initListSessions_def getSessionsMetadataFromFirestore_def getDocs_def
      metadataOfDoc_def activeUser_def Let_def example_defs)

lemma example_nav_ids:
  "currentSessionId
        (nav_run example_env example_storage example_unmounted
           [InitBegun, Reaction (UrlChanged (Some ''a'')), InitSessionsListed listed,
            Reaction (UrlChanged (Some ''b'')),
            Reaction (LoadSettled 2 (example_loaded ''b'')),
            Reaction (LoadSettled 1 (example_loaded ''a''))]) = Some ''b''"
  "currentSessionId
        (nav_run example_env example_storage example_unmounted
           [InitBegun, Reaction (UrlChanged (Some ''a'')), InitSessionsListed listed,
            Reaction (UrlChanged (Some ''b'')),
            Reaction (LoadSettled 2 (example_loaded ''b'')),
            Reaction (LoadSettled 1 (example_loaded ''a'')),
            InitLoadSettled (example_loaded ''a'')]) = Some ''a''"
  by (simp_all add: nav_run_def initBegin_def initSessionsListed_def initLoadSettled_def initFinally_def
        urlEffect_def truthyId_def
        handleSessionIdChange_def example_loaded_values Let_def example_unmounted_def example_env_def
        example_other_def example_session_def split: option.splits)

lemma example_nav_tickets:
  "snd (urlEffect (Some ''a'') (initBegin example_env example_storage example_unmounted)) = Some (1, ''a'')"
  "snd (urlEffect (Some ''b'')
            (nav_run example_env example_storage example_unmounted
               [InitBegun, Reaction (UrlChanged (Some ''a'')), InitSessionsListed listed]))
      = Some (2, ''b'')"
  by (simp_all add: nav_run_def initBegin_def initSessionsListed_def urlEffect_def truthyId_def Let_def
        example_unmounted_def example_env_def split: option.splits)

lemma init_whole_example:
  "currentSessionId (fst (init example_env example_storage (Some ''a'') example_unmounted example_both_world))
     = Some ''a''"
  by (simp add: init_def initBegin_def initListSessions_def initSessionsListed_def initLoadSettled_def
      initFinally_def truthyId_def loadSession_def getSessionFromFirestore_def
      getSessionsMetadataFromFirestore_def getDoc_def getDocs_def activeUser_def Let_def example_defs)

text \<open>
  C2. The claim is that, of two desired ids \<open>A\<close> then \<open>B\<close>, a load for \<open>A\<close> that
  settles after the load for \<open>B\<close> was issued is discarded, so that the final
  \<open>currentSessionId\<close> is that of the latest request. The code does not do this for the
  load that \<open>init\<close> issues. The page mounts with id \<open>a\<close> for a signed-in user: \<open>init\<close>
  begins, the URL effect issues the load of \<open>a\<close> with sequence 1, the list of \<open>init\<close>
  arrives, the URL id changes to \<open>b\<close> and the effect issues the load of \<open>b\<close> with
  sequence 2. The load of \<open>b\<close> settles and \<open>b\<close> is current; the load of \<open>a\<close> of the
  reaction settles and is discarded; then the load of \<open>a\<close> of \<open>init\<close> settles and
  \<open>currentSessionId\<close> is \<open>a\<close>, the id of the superseded request.
\<close>

theorem init_load_overwrites_latest:
  "snd (urlEffect (Some ''a'') (initBegin example_env example_storage example_unmounted)) = Some (1, ''a'')
   \<and> snd (urlEffect (Some ''b'')
            (nav_run example_env example_storage example_unmounted
               [InitBegun, Reaction (UrlChanged (Some ''a'')), InitSessionsListed example_listed]))
      = Some (2, ''b'')
   \<and> example_loaded ''a'' = Inr (Some (example_session\<lparr>thumbnailDataUrl := Null, diagramHistory := Null\<rparr>))
   \<and> example_loaded ''b'' = Inr (Some example_other)
   \<and> currentSessionId
        (nav_run example_env example_storage example_unmounted
           [InitBegun, Reaction (UrlChanged (Some ''a'')), InitSessionsListed example_listed,
            Reaction (UrlChanged (Some ''b'')),
            Reaction (LoadSettled 2 (example_loaded ''b'')),
            Reaction (LoadSettled 1 (example_loaded ''a''))]) = Some ''b''
   \<and> currentSessionId
        (nav_run example_env example_storage example_unmounted
           [InitBegun, Reaction (UrlChanged (Some ''a'')), InitSessionsListed example_listed,
            Reaction (UrlChanged (Some ''b'')),
            Reaction (LoadSettled 2 (example_loaded ''b'')),
            Reaction (LoadSettled 1 (example_loaded ''a'')),
            InitLoadSettled (example_loaded ''a'')]) = Some ''a''"
  by (intro conjI example_nav_tickets example_nav_ids example_loaded_values)

subsection \<open>The URL reaction never clears the current session\<close>

text \<open>
  C5. The effect for a \<open>null\<close> desired id starts no load and leaves \<open>currentSession\<close> and
  \<open>currentSessionId\<close> as they are. No event of the reaction (an effect run for any desired
  id, a load settling with any sequence and any result) takes a state with a current
  session to one without: after the event the two cells either hold what they held, or
  hold a loaded session and its id, different from the id before.
\<close>

theorem url_reaction_never_clears:
  "currentSession (fst (urlEffect None st)) = currentSession st
   \<and> currentSessionId (fst (urlEffect None st)) = currentSessionId st
   \<and> snd (urlEffect None st) = None
   \<and> (currentSession st \<noteq> None \<longrightarrow> currentSession (url_step st ev) \<noteq> None)
   \<and> (currentSessionId st \<noteq> None \<longrightarrow> currentSessionId (url_step st ev) \<noteq> None)
   \<and> ((currentSession (url_step st ev) = currentSession st
        \<and> currentSessionId (url_step st ev) = currentSessionId st)
      \<or> (\<exists>s. currentSession (url_step st ev) = Some s
             \<and> currentSessionId (url_step st ev) = Some (id_s s)
             \<and> currentSessionId st \<noteq> Some (id_s s)))"
  by (cases ev) (auto simp add: urlEffect_def truthyId_def handleSessionIdChange_def Let_def
      split: sum.splits option.splits)

theorem url_reaction_never_clears_witness:
  "currentSession example_state \<noteq> None \<and> currentSessionId example_state \<noteq> None
   \<and> currentSession (url_step example_state (UrlChanged None)) = Some example_session
   \<and> currentSessionId (url_step example_state (UrlChanged None)) = Some ''a''
   \<and> currentSession (url_step example_state (LoadSettled 0 (Inr (Some example_other)))) = Some example_other"
  using url_reaction_never_clears [of example_state "UrlChanged None"]
        url_reaction_never_clears [of example_state "LoadSettled 0 (Inr (Some example_other))"]
  by (simp add: example_state_def example_other_def example_session_def handleSessionIdChange_def)

subsection \<open>Round trip through the remote store\<close>

text \<open>
  C6. For every session, user and world: when \<open>setDoc\<close> succeeds, the save resolves, and
  a read of the same document on the resulting world whose \<open>getDoc\<close> succeeds returns a
  session with the same \<open>xmlSnapshots\<close> (the same pairs in the same order, through the
  \<open>{ ts, xml }\<close> objects and back), the same \<open>messages\<close>, the same \<open>diagramXml\<close>, and
  the same id, title and \<open>createdAt\<close>.
\<close>

theorem firestore_roundtrip:
  assumes "setDocFault E = None" and "getDocFault E' = None"
  shows "fst (saveSessionToFirestore E uid s w) = Inr ()
         \<and> (\<exists>s'. fst (getSessionFromFirestore E' uid (id_s s) (snd (saveSessionToFirestore E uid s w))) = Inr (Some s')
                \<and> xmlSnapshots s' = xmlSnapshots s
                \<and> messages s' = messages s
                \<and> diagramXml s' = diagramXml s
                \<and> id_s s' = id_s s \<and> title s' = title s \<and> createdAt s' = createdAt s)"
  using assms snapshots_roundtrip [of "xmlSnapshots s"]
  by (simp add: saveSessionToFirestore_ok getSessionFromFirestore_def getDoc_def Let_def
      AList.update_conv' sanitizeForFirestore_def sanitizeMessage_id)

theorem firestore_roundtrip_witness:
  "setDocFault example_env = None \<and> getDocFault example_env = None
   \<and> fst (saveSessionToFirestore example_env ''u1'' example_session example_world) = Inr ()
   \<and> fst (getSessionFromFirestore example_env ''u1'' ''a''
            (snd (saveSessionToFirestore example_env ''u1'' example_session example_world)))
     = Inr (Some (example_session\<lparr>thumbnailDataUrl := Null, diagramHistory := Null, updatedAt := 3001\<rparr>))
   \<and> xmlSnapshots (example_session\<lparr>thumbnailDataUrl := Null, diagramHistory := Null, updatedAt := 3001\<rparr>)
     = [(1, ''<x/>''), (2, ''<y/>'')]"
proof -
  have h1: "setDocFault example_env = None" by (simp add: example_env_def)
  have h2: "getDocFault example_env = None" by (simp add: example_env_def)
  have ev: "fst (getSessionFromFirestore example_env ''u1'' ''a''
            (snd (saveSessionToFirestore example_env ''u1'' example_session example_world)))
     = Inr (Some (example_session\<lparr>thumbnailDataUrl := Null, diagramHistory := Null, updatedAt := 3001\<rparr>))"
    by (simp add: saveSessionToFirestore_def getSessionFromFirestore_def setDoc_def getDoc_def Let_def
        sanitizeForFirestore_def sanitizeMessage_def sanitizeSnapshot_def sanitizeOptional_def
        nullish_def example_defs)
  have sn: "xmlSnapshots (example_session\<lparr>thumbnailDataUrl := Null, diagramHistory := Null, updatedAt := 3001\<rparr>)
     = [(1, ''<x/>''), (2, ''<y/>'')]"
    by (simp add: example_session_def)
  note T = firestore_roundtrip [OF h1 h2, of "''u1''" example_session example_world]
  show ?thesis using h1 h2 ev sn T by blast
qed

subsection \<open>The title is derived once\<close>





subsection \<open>Failures of the remote store\<close>

text \<open>
  C8, as amended. The remote adapter does not tell failures apart. Its reads
  (\<open>getSessionFromFirestore\<close>, \<open>getSessionsMetadataFromFirestore\<close>) resolve with
  \<open>null\<close> and with the empty list on every failure, permission-denied or not; its writes
  (\<open>saveSessionToFirestore\<close>, \<open>deleteSessionFromFirestore\<close>) reject with every failure,
  permission-denied included, and leave the store as it was. The hook does the
  classification around the remote writes: a permission-denied rejection is dropped
  and every other one is rethrown; around the remote read nothing is left to classify.
\<close>

theorem remote_adapter_failures:
  "fst (getSessionFromFirestore (E\<lparr>getDocFault := Some e\<rparr>) uid sid w) = Inr None
   \<and> fst (getSessionsMetadataFromFirestore (E\<lparr>getDocsFault := Some e\<rparr>) uid w) = Inr []
   \<and> fst (saveSessionToFirestore (E\<lparr>setDocFault := Some e\<rparr>) uid s w) = Inl e
   \<and> fst (deleteSessionFromFirestore (E\<lparr>deleteDocFault := Some e\<rparr>) uid sid w) = Inl e
   \<and> firestore (snd (saveSessionToFirestore (E\<lparr>setDocFault := Some e\<rparr>) uid s w)) = firestore w
   \<and> firestore (snd (deleteSessionFromFirestore (E\<lparr>deleteDocFault := Some e\<rparr>) uid sid w)) = firestore w
   \<and> (activeUser E = Some uid \<longrightarrow>
        fst (persistSession (E\<lparr>setDocFault := Some e\<rparr>) L s w) = (if permissionDenied e then Inr () else Inl e)
      \<and> fst (backendDelete (E\<lparr>deleteDocFault := Some e\<rparr>) L sid w) = (if permissionDenied e then Inr () else Inl e)
      \<and> fst (loadSession (E\<lparr>getDocFault := Some e\<rparr>) L sid w) = Inr None)"
  by (simp add: getSessionFromFirestore_def getSessionsMetadataFromFirestore_def
      saveSessionToFirestore_def deleteSessionFromFirestore_def persistSession_def backendDelete_def
      loadSession_def activeUser_def
      getDoc_def getDocs_def setDoc_def deleteDoc_def Let_def split: option.splits)

theorem remote_adapter_failures_witness:
  "activeUser example_env = Some ''u1''
   \<and> \<not> permissionDenied unavailable \<and> permissionDenied denied
   \<and> fst (saveSessionToFirestore (example_env\<lparr>setDocFault := Some denied\<rparr>) ''u1'' example_session example_world) = Inl denied
   \<and> fst (persistSession (example_env\<lparr>setDocFault := Some denied\<rparr>) example_storage example_session example_world) = Inr ()
   \<and> fst (persistSession (example_env\<lparr>setDocFault := Some unavailable\<rparr>) example_storage example_session example_world) = Inl unavailable
   \<and> fst (getSessionsMetadataFromFirestore (example_env\<lparr>getDocsFault := Some unavailable\<rparr>) ''u1'' example_world) = Inr []"
proof -
  have a: "activeUser example_env = Some ''u1''" by (simp add: activeUser_def example_env_def)
  have p: "\<not> permissionDenied unavailable" "permissionDenied denied"
    by (simp_all add: permissionDenied_def unavailable_def denied_def)
  note T1 = remote_adapter_failures [where E = example_env and e = denied and uid = "''u1''" and sid = "''a''"
                                      and w = example_world and s = example_session and L = example_storage]
  note T2 = remote_adapter_failures [where E = example_env and e = unavailable and uid = "''u1''" and sid = "''a''"
                                      and w = example_world and s = example_session and L = example_storage]
  show ?thesis using a p T1 T2 by simp
qed

text \<open>
  C8 as stated fails: a read that fails with \<open>unavailable\<close>, which is not permission-denied,
  is not rethrown but resolves with \<open>null\<close> (the empty list for the listing), and the
  adapter rethrows the permission-denied failure of a write instead of swallowing it.
\<close>

theorem remote_read_failure_not_rethrown:
  "getDocFault (example_env\<lparr>getDocFault := Some unavailable\<rparr>) = Some unavailable
   \<and> \<not> permissionDenied unavailable
   \<and> fst (getSessionFromFirestore (example_env\<lparr>getDocFault := Some unavailable\<rparr>) ''u1'' ''a'' example_world) = Inr None
   \<and> fst (getSessionsMetadataFromFirestore (example_env\<lparr>getDocsFault := Some unavailable\<rparr>) ''u1'' example_world) = Inr []
   \<and> fst (saveSessionToFirestore (example_env\<lparr>setDocFault := Some denied\<rparr>) ''u1'' example_session example_world) = Inl denied
   \<and> permissionDenied denied"
  by (simp add: getSessionFromFirestore_def getSessionsMetadataFromFirestore_def saveSessionToFirestore_def
      getDoc_def getDocs_def setDoc_def Let_def permissionDenied_def unavailable_def denied_def)

subsection \<open>Save before switch\<close>

lemma isSaveCall_simps [simp]:
  "isSaveCall (saveCallOf E s)" "\<not> isSaveCall (loadCallOf E sid)"
  by (simp_all add: isSaveCall_def saveCallOf_def loadCallOf_def split: option.splits)

lemma newCalls_append [simp]: "calls w' = calls w @ xs \<Longrightarrow> newCalls w w' = xs"
  by (simp add: newCalls_def)

lemma loadSession_indexedDB: "indexedDB (snd (loadSession E L sid w)) = indexedDB w"
  by (auto simp add: loadSession_def localGet_def getSessionFromFirestore_def Let_def
        split: option.splits sum.splits)

lemma switchSession_after_save:
  assumes "Some sid \<noteq> currentSessionId st" and "saveBeforeSwitch E L st w = (Inr u, w1)"
  shows "snd (snd (switchSession E L sid st w)) = snd (loadSession E L sid w1)"
proof -
  obtain r w2 where l: "loadSession E L sid w1 = (r, w2)"
    by (cases "loadSession E L sid w1") auto
  show ?thesis
  proof (cases r)
    case (Inl e)
    then show ?thesis using assms by (simp add: switchSession_def l)
  next
    case (Inr found)
    then show ?thesis using assms by (cases found) (simp_all add: switchSession_def l)
  qed
qed


lemma switchSession_work:
  assumes "Some sid \<noteq> currentSessionId st"
      and "currentSession st = Some cs" and "messages cs \<noteq> []"
  shows "case persistSession E L cs w of
           (Inr u, w1) \<Rightarrow>
              calls (snd (snd (switchSession E L sid st w))) = calls w @ [saveCallOf E cs, loadCallOf E sid]
              \<and> firestore (snd (snd (switchSession E L sid st w))) = firestore w1
              \<and> indexedDB (snd (snd (switchSession E L sid st w))) = indexedDB w1
         | (Inl e, w1) \<Rightarrow>
              switchSession E L sid st w = (Inl e, st, w1)
              \<and> calls w1 = calls w @ [saveCallOf E cs]"
proof -
  have sb: "saveBeforeSwitch E L st w = persistSession E L cs w"
    using assms(2,3) by (simp add: saveBeforeSwitch_def)
  obtain r w1 where p: "persistSession E L cs w = (r, w1)"
    by (cases "persistSession E L cs w") auto
  have c1: "calls w1 = calls w @ [saveCallOf E cs]"
    using persistSession_calls [of E L cs w] p by simp
  show ?thesis
  proof (cases r)
    case (Inl e)
    then show ?thesis using assms(1) c1 by (simp add: switchSession_def sb p)
  next
    case (Inr u)
    with sb p have sb': "saveBeforeSwitch E L st w = (Inr u, w1)" by simp
    show ?thesis
      using Inr c1
      by (simp add: p switchSession_after_save [OF assms(1) sb'] loadSession_calls
          loadSession_firestore loadSession_indexedDB)
  qed
qed


lemma persistSession_remote_store:
  assumes "activeUser E = Some uid"
  shows "case setDocFault E of
           None \<Rightarrow>
             fst (persistSession E L s w) = Inr ()
             \<and> (\<exists>d. map_of (firestore (snd (persistSession E L s w))) (uid, id_s s) = Some d
                    \<and> messages_fs d = messages s \<and> diagramXml_fs d = diagramXml s
                    \<and> title_fs d = title s \<and> updatedAt_fs d = dateNowFirestore E)
         | Some e \<Rightarrow>
             fst (persistSession E L s w) = (if permissionDenied e then Inr () else Inl e)
             \<and> firestore (snd (persistSession E L s w)) = firestore w"
  by (cases "setDocFault E")
     (simp_all add: persistSession_remote [OF assms] saveSessionToFirestore_ok
        AList.update_conv' sanitizeForFirestore_def sanitizeMessage_id)







subsection \<open>Deleting a session\<close>








subsection \<open>The timestamp of a save\<close>

lemma saveCurrentSession_update_path:
  assumes "currentSession st = Some cs" and "f = None \<or> f = Some (currentSessionId st)"
  shows "saveCurrentSession E L data f st w =
           (case persistSession E L (updatedSessionOf E L data cs) w of
              (Inl e, w1) \<Rightarrow> (Inl e, st, w1)
            | (Inr u, w1) \<Rightarrow>
                (Inr (),
                 st\<lparr>currentSession := Some (updatedSessionOf E L data cs),
                    sessions := map (updateMetadata (updatedSessionOf E L data cs)) (sessions st)\<rparr>,
                 w1))"
  using assms by (auto simp add: saveCurrentSession_def saveCurrentSessionCallback_def Let_def)

lemma saveCurrentSession_create_path:
  assumes "currentSession st = None" and "f = None \<or> f = Some (currentSessionId st)"
  shows "saveCurrentSession E L data f st w =
           (case persistNewSession E L (newSessionOf L data) w of
              (Inl e, w1) \<Rightarrow> (Inl e, st, w1)
            | (Inr u, w1) \<Rightarrow>
                (case refreshSessions E L
                        (st\<lparr>currentSession := Some (newSessionOf L data),
                            currentSessionId := Some (id_s (newSessionOf L data))\<rparr>) w1 of
                   (st2, w2) \<Rightarrow> (Inr (), st2, w2)))"
  using assms by (auto simp add: saveCurrentSession_def saveCurrentSessionCallback_def Let_def)

lemma updatedSessionOf_updatedAt [simp]: "updatedAt (updatedSessionOf E L data cs) = dateNow E"
  by (simp add: updatedSessionOf_def)

lemma update_path_resolved:
  assumes "currentSession st = Some cs" and "f = None \<or> f = Some (currentSessionId st)"
      and "fst (saveCurrentSession E L data f st w) = Inr ()"
  shows "currentSession (fst (snd (saveCurrentSession E L data f st w))) = Some (updatedSessionOf E L data cs)"
proof -
  obtain r w1 where p: "persistSession E L (updatedSessionOf E L data cs) w = (r, w1)"
    by (cases "persistSession E L (updatedSessionOf E L data cs) w") auto
  show ?thesis
    using assms(3) unfolding saveCurrentSession_update_path [OF assms(1,2)] p
    by (cases r) simp_all
qed

text \<open>
  C9, as amended. A call of \<open>saveCurrentSession\<close> on its update path that resolves after
  a save sets \<open>updatedAt\<close> of the current session to the reading of \<open>Date.now()\<close> taken
  by the hook, so the new value is at least the old one exactly when that reading is. A
  remote save that succeeds stores \<open>updatedAt\<close> as the reading taken by the adapter; so
  does the save before a switch on the remote backend. On the local backend the save
  before a switch hands the current session, with the \<open>updatedAt\<close> it has, to
  \<open>saveSession\<close>.
\<close>

theorem updatedAt_follows_clock:
  "(\<forall>cs. currentSession st = Some cs \<and> (f = None \<or> f = Some (currentSessionId st))
         \<and> fst (saveCurrentSession E L data f st w) = Inr () \<longrightarrow>
         map_option updatedAt (currentSession (fst (snd (saveCurrentSession E L data f st w)))) = Some (dateNow E)
         \<and> (updatedAt cs \<le> dateNow E \<longleftrightarrow>
              (\<exists>cs'. currentSession (fst (snd (saveCurrentSession E L data f st w))) = Some cs'
                     \<and> updatedAt cs \<le> updatedAt cs')))
   \<and> (setDocFault E = None \<longrightarrow>
         fst (saveSessionToFirestore E uid s w) = Inr ()
         \<and> map_option updatedAt_fs (map_of (firestore (snd (saveSessionToFirestore E uid s w))) (uid, id_s s))
             = Some (dateNowFirestore E))
   \<and> (\<forall>cs. Some sid \<noteq> currentSessionId st \<and> currentSession st = Some cs \<and> messages cs \<noteq> []
           \<and> activeUser E = Some uid \<and> setDocFault E = None \<longrightarrow>
         map_option updatedAt_fs (map_of (firestore (snd (snd (switchSession E L sid st w)))) (uid, id_s cs))
           = Some (dateNowFirestore E))
   \<and> (\<forall>cs. Some sid \<noteq> currentSessionId st \<and> currentSession st = Some cs \<and> messages cs \<noteq> []
           \<and> activeUser E = None \<longrightarrow>
         take 1 (newCalls w (snd (snd (switchSession E L sid st w)))) = [LocalSave cs])"
proof (intro conjI allI impI)
  fix cs
  assume a: "currentSession st = Some cs \<and> (f = None \<or> f = Some (currentSessionId st))
         \<and> fst (saveCurrentSession E L data f st w) = Inr ()"
  then have u: "currentSession (fst (snd (saveCurrentSession E L data f st w))) = Some (updatedSessionOf E L data cs)"
    by (intro update_path_resolved) simp_all
  show "map_option updatedAt (currentSession (fst (snd (saveCurrentSession E L data f st w)))) = Some (dateNow E)"
    by (simp add: u)
  show "updatedAt cs \<le> dateNow E \<longleftrightarrow>
              (\<exists>cs'. currentSession (fst (snd (saveCurrentSession E L data f st w))) = Some cs'
                     \<and> updatedAt cs \<le> updatedAt cs')"
    by (simp add: u)
next
  assume "setDocFault E = None"
  then show "fst (saveSessionToFirestore E uid s w) = Inr ()"
    and "map_option updatedAt_fs (map_of (firestore (snd (saveSessionToFirestore E uid s w))) (uid, id_s s))
             = Some (dateNowFirestore E)"
    by (simp_all add: saveSessionToFirestore_ok AList.update_conv' sanitizeForFirestore_def)
next
  fix cs
  assume a: "Some sid \<noteq> currentSessionId st \<and> currentSession st = Some cs \<and> messages cs \<noteq> []
           \<and> activeUser E = Some uid \<and> setDocFault E = None"
  then have h: "Some sid \<noteq> currentSessionId st" "currentSession st = Some cs" "messages cs \<noteq> []"
    "activeUser E = Some uid" and n: "setDocFault E = None" by simp_all
  obtain r w1 where p: "persistSession E L cs w = (r, w1)"
    by (cases "persistSession E L cs w") auto
  note S = persistSession_remote_store [OF h(4), of L cs w, unfolded p n, simplified]
  note W = switchSession_work [OF h(1,2,3), of E L w, unfolded p]
  from S have r: "r = Inr ()" by simp
  from W have "firestore (snd (snd (switchSession E L sid st w))) = firestore w1"
    unfolding r by simp
  with S show "map_option updatedAt_fs (map_of (firestore (snd (snd (switchSession E L sid st w)))) (uid, id_s cs))
           = Some (dateNowFirestore E)"
    by auto
next
  fix cs
  assume a: "Some sid \<noteq> currentSessionId st \<and> currentSession st = Some cs \<and> messages cs \<noteq> []
           \<and> activeUser E = None"
  then have h: "Some sid \<noteq> currentSessionId st" "currentSession st = Some cs" "messages cs \<noteq> []"
    and l: "activeUser E = None" by simp_all
  obtain r w1 where p: "persistSession E L cs w = (r, w1)"
    by (cases "persistSession E L cs w") auto
  have c1: "calls w1 = calls w @ [saveCallOf E cs]"
    using persistSession_calls [of E L cs w] p by simp
  have nm: "saveCallOf E cs = LocalSave cs" using l by (simp add: saveCallOf_def)
  note W = switchSession_work [OF h, of E L w, unfolded p]
  show "take 1 (newCalls w (snd (snd (switchSession E L sid st w)))) = [LocalSave cs]"
  proof (cases r)
    case (Inl e)
    with W have "switchSession E L sid st w = (Inl e, st, w1)" by simp
    then show ?thesis using c1 nm by simp
  next
    case (Inr u)
    with W have "calls (snd (snd (switchSession E L sid st w))) = calls w @ [saveCallOf E cs, loadCallOf E sid]"
      by simp
    then have "newCalls w (snd (snd (switchSession E L sid st w))) = [saveCallOf E cs, loadCallOf E sid]"
      by simp
    then show ?thesis using nm by simp
  qed
qed

theorem updatedAt_follows_clock_witness:
  "currentSession example_state = Some example_session \<and> updatedAt example_session = 2000
   \<and> fst (saveCurrentSession example_env example_storage example_data None example_state example_world) = Inr ()
   \<and> map_option updatedAt
        (currentSession (fst (snd (saveCurrentSession example_env example_storage example_data None
                                     example_state example_world)))) = Some 3000
   \<and> setDocFault example_env = None
   \<and> map_option updatedAt_fs
        (map_of (firestore (snd (saveSessionToFirestore example_env ''u1'' example_session example_world)))
           (''u1'', ''a'')) = Some 3001"
proof -
  have h: "currentSession example_state = Some example_session" "updatedAt example_session = 2000"
    "setDocFault example_env = None" "dateNow example_env = 3000" "dateNowFirestore example_env = 3001"
    "id_s example_session = ''a''"
    by (simp_all add: example_state_def example_session_def example_env_def)
  have r: "fst (saveCurrentSession example_env example_storage example_data None example_state example_world) = Inr ()"
    by (simp add: saveCurrentSession_def saveCurrentSessionCallback_def persistSession_def activeUser_def saveSessionToFirestore_def
        setDoc_def Let_def example_state_def example_env_def)
  note T = updatedAt_follows_clock [where E = example_env and L = example_storage and data = example_data
             and f = None and st = example_state and w = example_world and uid = "''u1''"
             and s = example_session]
  from T [THEN conjunct1, rule_format, of example_session] h r
  have a: "map_option updatedAt
        (currentSession (fst (snd (saveCurrentSession example_env example_storage example_data None
                                     example_state example_world)))) = Some 3000"
    by simp
  from T [THEN conjunct2, THEN conjunct1, rule_format, OF h(3)] h
  have b: "map_option updatedAt_fs
        (map_of (firestore (snd (saveSessionToFirestore example_env ''u1'' example_session example_world)))
           (''u1'', ''a'')) = Some 3001"
    by simp
  show ?thesis using h r a b by simp
qed

text \<open>
  C9 as stated fails where the clock reads less than the stored timestamp (a clock set
  back, or a session last saved from a device whose clock is ahead): the save succeeds
  and the new \<open>updatedAt\<close>, 1500, is smaller than the 2000 it replaces, in memory and in
  the remote document.
\<close>

theorem updatedAt_can_decrease:
  "currentSession example_state = Some example_session \<and> updatedAt example_session = 2000
   \<and> fst (saveCurrentSession (example_local_env\<lparr>dateNow := 1500\<rparr>) example_storage example_data None
            example_state example_world) = Inr ()
   \<and> map_option updatedAt
        (currentSession (fst (snd (saveCurrentSession (example_local_env\<lparr>dateNow := 1500\<rparr>) example_storage
                                     example_data None example_state example_world)))) = Some 1500
   \<and> fst (saveSessionToFirestore (example_env\<lparr>dateNowFirestore := 1500\<rparr>) ''u1'' example_session
            example_world) = Inr ()
   \<and> map_option updatedAt_fs
        (map_of (firestore (snd (saveSessionToFirestore (example_env\<lparr>dateNowFirestore := 1500\<rparr>) ''u1''
                                   example_session example_world))) (''u1'', ''a'')) = Some 1500"
  by (simp add: saveCurrentSession_def saveCurrentSessionCallback_def persistSession_def localSave_def activeUser_def updatedSessionOf_def
      saveSessionToFirestore_def setDoc_def sanitizeForFirestore_def Let_def example_defs)

subsection \<open>A remote save rejected with permission-denied\<close>

lemma activeUser_setDocFault [simp]: "activeUser (E\<lparr>setDocFault := x\<rparr>) = activeUser E"
  by (simp add: activeUser_def split: option.splits)

lemma getSessionsMetadataFromFirestore_setDocFault [simp]:
  "getSessionsMetadataFromFirestore (E\<lparr>setDocFault := x\<rparr>) uid w = getSessionsMetadataFromFirestore E uid w"
  by (simp add: getSessionsMetadataFromFirestore_def)

lemma refreshSessions_setDocFault [simp]:
  "refreshSessions (E\<lparr>setDocFault := x\<rparr>) L st w = refreshSessions E L st w"
  by (simp add: refreshSessions_def cong: option.case_cong)

lemma updatedSessionOf_setDocFault [simp]:
  "updatedSessionOf (E\<lparr>setDocFault := x\<rparr>) L data cs = updatedSessionOf E L data cs"
  by (simp add: updatedSessionOf_def)

lemma persistSession_denied:
  assumes "activeUser E = Some uid" and "setDocFault E = Some e" and "permissionDenied e"
  shows "persistSession E L s w = (Inr (), w\<lparr>calls := calls w @ [FirestoreSave uid s]\<rparr>)"
  using assms by (simp add: persistSession_remote [OF assms(1)])

lemma persistSession_succeeds:
  assumes "activeUser E = Some uid"
  shows "fst (persistSession (E\<lparr>setDocFault := None\<rparr>) L s w) = Inr ()"
proof -
  have "activeUser (E\<lparr>setDocFault := None\<rparr>) = Some uid" using assms by simp
  from persistSession_remote [OF this, of L s w] show ?thesis by simp
qed

lemma persistNewSession_remote:
  "activeUser E = Some uid \<Longrightarrow> persistNewSession E L s w = persistSession E L s w"
  by (simp add: persistNewSession_def)

text \<open>
  C10, as amended. When the remote backend is active and the remote write of
  \<open>saveCurrentSession\<close> (not discarded as stale) is rejected with permission-denied, the
  call resolves, the remote store is as before, and \<open>currentSession\<close> and
  \<open>currentSessionId\<close> end as they do when the write succeeds. On the update path the
  whole state ends as it does on success: the updated session is current and its entry of
  the list is rewritten in place. On the creation path the new session is current, its
  id is \<open>currentSessionId\<close>, and the list is what \<open>refreshSessions\<close> reads after the
  rejected write, from a store that does not hold the new session.
\<close>

theorem denied_save_updates_memory:
  assumes "activeUser E = Some uid" and "setDocFault E = Some e" and "permissionDenied e"
      and "f = None \<or> f = Some (currentSessionId st)"
  shows "let out = saveCurrentSession E L data f st w;
             ok = saveCurrentSession (E\<lparr>setDocFault := None\<rparr>) L data f st w
         in fst out = Inr () \<and> fst ok = Inr ()
          \<and> firestore (snd (snd out)) = firestore w
          \<and> currentSession (fst (snd out)) = currentSession (fst (snd ok))
          \<and> currentSessionId (fst (snd out)) = currentSessionId (fst (snd ok))
          \<and> (\<forall>cs. currentSession st = Some cs \<longrightarrow>
                fst (snd out) = fst (snd ok)
                \<and> fst (snd out) =
                    st\<lparr>currentSession := Some (updatedSessionOf E L data cs),
                       sessions := map (updateMetadata (updatedSessionOf E L data cs)) (sessions st)\<rparr>)
          \<and> (currentSession st = None \<longrightarrow>
                currentSession (fst (snd out)) = Some (newSessionOf L data)
                \<and> currentSessionId (fst (snd out)) = Some (id_s (newSessionOf L data))
                \<and> snd out = refreshSessions E L
                              (st\<lparr>currentSession := Some (newSessionOf L data),
                                  currentSessionId := Some (id_s (newSessionOf L data))\<rparr>)
                              (w\<lparr>calls := calls w @ [FirestoreSave uid (newSessionOf L data)]\<rparr>))"
proof (cases "currentSession st")
  case None
  let ?new = "newSessionOf L data"
  let ?st1 = "st\<lparr>currentSession := Some ?new, currentSessionId := Some (id_s ?new)\<rparr>"
  let ?w1 = "w\<lparr>calls := calls w @ [FirestoreSave uid ?new]\<rparr>"
  have au': "activeUser (E\<lparr>setDocFault := None\<rparr>) = Some uid" using assms(1) by simp
  have f': "f = None \<or> f = Some (currentSessionId st)" by (rule assms(4))
  obtain st2 w2 where rf: "refreshSessions E L ?st1 ?w1 = (st2, w2)"
    by (cases "refreshSessions E L ?st1 ?w1") auto
  have out: "saveCurrentSession E L data f st w = (Inr (), st2, w2)"
    by (simp add: saveCurrentSession_create_path [OF None f'] persistNewSession_remote [OF assms(1)]
        persistSession_denied [OF assms(1,2,3)] rf)
  obtain r' w1' where p': "persistSession (E\<lparr>setDocFault := None\<rparr>) L ?new w = (r', w1')"
    by (cases "persistSession (E\<lparr>setDocFault := None\<rparr>) L ?new w") auto
  have r': "r' = Inr ()" using persistSession_succeeds [OF assms(1), of L ?new w] p' by simp
  obtain st2' w2' where rf': "refreshSessions E L ?st1 w1' = (st2', w2')"
    by (cases "refreshSessions E L ?st1 w1'") auto
  have ok: "saveCurrentSession (E\<lparr>setDocFault := None\<rparr>) L data f st w = (Inr (), st2', w2')"
    by (simp add: saveCurrentSession_create_path [OF None f'] persistNewSession_remote [OF au']
        p' r' rf')
  have cur: "currentSession st2 = Some ?new" "currentSessionId st2 = Some (id_s ?new)"
    using refreshSessions_current [of E L ?st1 ?w1] rf by simp_all
  have cur': "currentSession st2' = Some ?new" "currentSessionId st2' = Some (id_s ?new)"
    using refreshSessions_current [of E L ?st1 w1'] rf' by simp_all
  have fs: "firestore w2 = firestore w"
    using rf by (auto simp add: refreshSessions_def getSessionsMetadataFromFirestore_def localList_def
        Let_def split: option.splits sum.splits prod.splits if_splits)
  show ?thesis
    using None by (simp add: Let_def out ok cur cur' fs rf)
next
  case (Some cs)
  let ?upd = "updatedSessionOf E L data cs"
  have f': "f = None \<or> f = Some (currentSessionId st)" by (rule assms(4))
  have out: "saveCurrentSession E L data f st w =
               (Inr (), st\<lparr>currentSession := Some ?upd, sessions := map (updateMetadata ?upd) (sessions st)\<rparr>,
                w\<lparr>calls := calls w @ [FirestoreSave uid ?upd]\<rparr>)"
    by (simp add: saveCurrentSession_update_path [OF Some f'] persistSession_denied [OF assms(1,2,3)])
  obtain r' w1' where p': "persistSession (E\<lparr>setDocFault := None\<rparr>) L ?upd w = (r', w1')"
    by (cases "persistSession (E\<lparr>setDocFault := None\<rparr>) L ?upd w") auto
  have r': "r' = Inr ()" using persistSession_succeeds [OF assms(1), of L ?upd w] p' by simp
  have ok: "saveCurrentSession (E\<lparr>setDocFault := None\<rparr>) L data f st w =
               (Inr (), st\<lparr>currentSession := Some ?upd, sessions := map (updateMetadata ?upd) (sessions st)\<rparr>,
                w1')"
    by (simp add: saveCurrentSession_update_path [OF Some f'] p' r')
  show ?thesis
    using Some by (simp add: Let_def out ok)
qed

theorem denied_save_updates_memory_witness:
  "activeUser (example_env\<lparr>setDocFault := Some denied\<rparr>) = Some ''u1''
   \<and> setDocFault (example_env\<lparr>setDocFault := Some denied\<rparr>) = Some denied
   \<and> permissionDenied denied
   \<and> currentSession example_state = Some example_session
   \<and> fst (saveCurrentSession (example_env\<lparr>setDocFault := Some denied\<rparr>) example_storage example_data None
            example_state example_remote_world) = Inr ()
   \<and> fst (snd (saveCurrentSession (example_env\<lparr>setDocFault := Some denied\<rparr>) example_storage example_data
                  None example_state example_remote_world))
     = fst (snd (saveCurrentSession (example_env\<lparr>setDocFault := None\<rparr>) example_storage example_data
                  None example_state example_remote_world))
   \<and> firestore (snd (snd (saveCurrentSession (example_env\<lparr>setDocFault := Some denied\<rparr>) example_storage
                             example_data None example_state example_remote_world)))
     = firestore example_remote_world
   \<and> map_option messages
        (currentSession (fst (snd (saveCurrentSession (example_env\<lparr>setDocFault := Some denied\<rparr>)
                                     example_storage example_data None example_state example_remote_world))))
     = Some (messages_sd example_data)"
proof -
  have h: "activeUser (example_env\<lparr>setDocFault := Some denied\<rparr>) = Some ''u1''"
    "setDocFault (example_env\<lparr>setDocFault := Some denied\<rparr>) = Some denied"
    "permissionDenied denied"
    "None = None \<or> None = Some (currentSessionId example_state)"
    by (simp_all add: activeUser_def example_env_def permissionDenied_def denied_def)
  have c: "currentSession example_state = Some example_session" by (simp add: example_state_def)
  note T = denied_save_updates_memory [OF h, where L = example_storage and data = example_data
             and w = example_remote_world, unfolded Let_def, simplified]
  note U = T [THEN conjunct2, THEN conjunct2, THEN conjunct2, THEN conjunct2, THEN conjunct2,
              THEN conjunct1, rule_format, OF c]
  have m: "map_option messages
        (currentSession (fst (snd (saveCurrentSession (example_env\<lparr>setDocFault := Some denied\<rparr>)
                                     example_storage example_data None example_state example_remote_world))))
     = Some (messages_sd example_data)"
    unfolding U [THEN conjunct2] by (simp add: updatedSessionOf_def)
  show ?thesis
    using h c m T [THEN conjunct1] T [THEN conjunct2, THEN conjunct2, THEN conjunct1] U [THEN conjunct1]
    by simp
qed

text \<open>
  C10 as stated fails on the creation path: after the rejected write the new session
  \<open>n\<close> is current but the list, read back from the remote store, has no entry for it,
  while after a successful write the list has the entry of \<open>n\<close>.
\<close>

theorem denied_create_leaves_no_list_entry:
  "currentSession example_blank = None \<and> permissionDenied denied
   \<and> fst (saveCurrentSession (example_env\<lparr>setDocFault := Some denied\<rparr>) example_storage example_data None
            example_blank example_world) = Inr ()
   \<and> currentSessionId (fst (snd (saveCurrentSession (example_env\<lparr>setDocFault := Some denied\<rparr>)
                                    example_storage example_data None example_blank example_world)))
     = Some ''n''
   \<and> sessions (fst (snd (saveCurrentSession (example_env\<lparr>setDocFault := Some denied\<rparr>)
                            example_storage example_data None example_blank example_world))) = []
   \<and> map id_md (sessions (fst (snd (saveCurrentSession example_env example_storage example_data None
                                        example_blank example_world)))) = [''n'']"
  by (simp add: saveCurrentSession_def saveCurrentSessionCallback_def persistNewSession_def persistSession_def refreshSessions_def
      newSessionOf_def saveSessionToFirestore_def getSessionsMetadataFromFirestore_def
      setDoc_def getDocs_def metadataOfDoc_def sanitizeForFirestore_def activeUser_def
      permissionDenied_def Let_def example_defs)

end
